theory Spec2Isabelle
  imports Complex_Main "HOL-Library.Word"
begin

section \<open>JavaScript values\<close>

text \<open>
  A JavaScript string is a sequence of UTF-16 code units and \<open>.length\<close> counts them, so
  a string is a list of 16-bit words. \<open>js\<close> writes an ASCII literal of the source.
\<close>

type_synonym code_unit = "16 word"
type_synonym jsstring = "code_unit list"

definition cu :: "char \<Rightarrow> code_unit" where
  "cu c = of_char c"

definition js :: "string \<Rightarrow> jsstring" where
  "js s = map cu s"

text \<open>
  A number is a double: every finite double is a rational, and \<open>NaN\<close> and the two
  infinities are values of their own. The code only asks whether a number is falsy
  (\<open>0\<close>, \<open>-0\<close>, \<open>NaN\<close>) and prints it into messages.
\<close>

datatype jsnum = Finite rat | NaN | PosInfinity | NegInfinity

text \<open>
  Values reaching the node: primitives and plain data objects (a map from property names
  to values, whose \<open>toString\<close> is the inherited one).
\<close>

datatype jsval =
    JUndefined
  | JNull
  | JBool bool
  | JNum jsnum
  | JStr jsstring
  | JObj "jsstring \<Rightarrow> jsval option"

type_synonym IDataObject = "jsstring \<Rightarrow> jsval option"

datatype jstype = TUndefined | TObject | TBoolean | TNumber | TString

fun typeof :: "jsval \<Rightarrow> jstype" where
  "typeof JUndefined = TUndefined"
| "typeof JNull = TObject"
| "typeof (JBool b) = TBoolean"
| "typeof (JNum n) = TNumber"
| "typeof (JStr s) = TString"
| "typeof (JObj m) = TObject"

text \<open>\<open>truthy v\<close> is the value of \<open>!!v\<close>, so \<open>!v\<close> is \<open>\<not> truthy v\<close>.\<close>

fun truthy :: "jsval \<Rightarrow> bool" where
  "truthy JUndefined = False"
| "truthy JNull = False"
| "truthy (JBool b) = b"
| "truthy (JNum (Finite q)) = (q \<noteq> 0)"
| "truthy (JNum NaN) = False"
| "truthy (JNum PosInfinity) = True"
| "truthy (JNum NegInfinity) = True"
| "truthy (JStr s) = (s \<noteq> [])"
| "truthy (JObj m) = True"

text \<open>Property read \<open>o.k\<close>: a missing property reads as \<open>undefined\<close>.\<close>

definition get_prop :: "IDataObject \<Rightarrow> jsstring \<Rightarrow> jsval" where
  "get_prop obj k = (case obj k of None \<Rightarrow> JUndefined | Some v \<Rightarrow> v)"

section \<open>Regular expressions\<close>

text \<open>
  The three patterns of the source are anchored at both ends (\<open>^\<close> ... \<open>$\<close>, no flags) and
  are sequences of quantified character classes. \<open>Rep cls lo hi\<close> is \<open>[cls]{lo,hi}\<close>, with
  \<open>hi = None\<close> for an unbounded repetition; a class is a union of inclusive code-unit
  ranges. \<open>regex_test r s\<close> is \<open>r.test(s)\<close>: some choice of repetition counts consumes
  the whole string.
\<close>

type_synonym char_class = "(code_unit \<times> code_unit) list"

definition in_class :: "char_class \<Rightarrow> code_unit \<Rightarrow> bool" where
  "in_class cls c = list_ex (\<lambda>(lo, hi). lo \<le> c \<and> c \<le> hi) cls"

datatype atom = Rep char_class nat "nat option"

fun regex_test :: "atom list \<Rightarrow> jsstring \<Rightarrow> bool" where
  "regex_test [] s = (s = [])"
| "regex_test (Rep cls lo hi # rest) s =
     list_ex (\<lambda>n. list_all (in_class cls) (take n s) \<and> regex_test rest (drop n s))
       [lo ..< Suc (case hi of None \<Rightarrow> length s | Some h \<Rightarrow> min h (length s))]"

definition single :: "char \<Rightarrow> char_class" where
  "single c = [(cu c, cu c)]"

definition digit :: char_class where
  "digit = [(cu CHR ''0'', cu CHR ''9'')]"

section \<open>Validators and sanitizer (GenericFunctions)\<close>

text \<open>\<open>/^[0-9]{8,10}:[A-Za-z0-9_-]{30,45}$/\<close>\<close>

definition tokenRegex :: "atom list" where
  "tokenRegex =
     [Rep digit 8 (Some 10),
      Rep (single CHR '':'') 1 (Some 1),
      Rep [(cu CHR ''A'', cu CHR ''Z''), (cu CHR ''a'', cu CHR ''z''), (cu CHR ''0'', cu CHR ''9''),
           (cu CHR ''_'', cu CHR ''_''), (cu CHR ''-'', cu CHR ''-'')] 30 (Some 45)]"

definition validateBotToken :: "jsval \<Rightarrow> bool" where
  "validateBotToken token =
     (if \<not> truthy token \<or> typeof token \<noteq> TString then False
      else (case token of JStr s \<Rightarrow> regex_test tokenRegex s | _ \<Rightarrow> False))"

text \<open>\<open>/^-?\d+$/\<close> and \<open>/^@[a-zA-Z][a-zA-Z0-9_]{4,31}$/\<close>\<close>

definition numericRegex :: "atom list" where
  "numericRegex = [Rep (single CHR ''-'') 0 (Some 1), Rep digit 1 None]"

definition usernameRegex :: "atom list" where
  "usernameRegex =
     [Rep (single CHR ''@'') 1 (Some 1),
      Rep [(cu CHR ''a'', cu CHR ''z''), (cu CHR ''A'', cu CHR ''Z'')] 1 (Some 1),
      Rep [(cu CHR ''a'', cu CHR ''z''), (cu CHR ''A'', cu CHR ''Z''), (cu CHR ''0'', cu CHR ''9''),
           (cu CHR ''_'', cu CHR ''_'')] 4 (Some 31)]"

definition startsWith :: "jsstring \<Rightarrow> jsstring \<Rightarrow> bool" where
  "startsWith s p = (take (length p) s = p)"

text \<open>
  \<open>validateChatId\<close>, one equation per kind of value. A number never reaches
  \<open>chatId.toString()\<close>: \<open>typeof chatId === 'number'\<close> decides first. A string is its own
  \<open>toString()\<close>; \<open>true\<close> prints as \<open>true\<close> and a plain object as \<open>[object Object]\<close>, and
  neither is a string, so the username branch is skipped for them.

  The equation for objects is that of a plain object with the inherited \<open>toString\<close>. What
  \<open>chatId.toString()\<close> gives for other objects is not modelled: an array prints its elements
  (so \<open>[5]\<close> prints as \<open>5\<close> and is accepted), and on an object with a non-callable
  \<open>toString\<close> property of its own the call throws. Which values are accepted is therefore
  stated below for primitive values only.
\<close>

fun validateChatId :: "jsval \<Rightarrow> bool" where
  "validateChatId (JNum n) = (if \<not> truthy (JNum n) then False else True)"
| "validateChatId (JStr s) =
     (if \<not> truthy (JStr s) then False
      else if regex_test numericRegex s then True
      else if startsWith s (js ''@'') then regex_test usernameRegex s
      else False)"
| "validateChatId (JBool b) =
     (if \<not> truthy (JBool b) then False
      else if regex_test numericRegex (js ''true'') then True
      else False)"
| "validateChatId (JObj m) =
     (if regex_test numericRegex (js ''[object Object]'') then True else False)"
| "validateChatId JUndefined = False"
| "validateChatId JNull = False"

text \<open>
  \<open>String.prototype.trim\<close> removes white space and line terminators at both ends:
  U+0009..U+000D, U+0020, U+00A0, U+1680, U+2000..U+200A, U+2028, U+2029, U+202F, U+205F,
  U+3000, U+FEFF.
\<close>

definition whitespace :: char_class where
  "whitespace =
     [(0x9, 0xD), (0x20, 0x20), (0xA0, 0xA0), (0x1680, 0x1680), (0x2000, 0x200A),
      (0x2028, 0x2029), (0x202F, 0x202F), (0x205F, 0x205F), (0x3000, 0x3000),
      (0xFEFF, 0xFEFF)]"

definition trim :: "jsstring \<Rightarrow> jsstring" where
  "trim s = rev (dropWhile (in_class whitespace) (rev (dropWhile (in_class whitespace) s)))"

text \<open>\<open>s.replace(/c/g, r)\<close> for a one-character pattern and a replacement without \<open>$\<close>.\<close>

definition replace :: "code_unit \<Rightarrow> jsstring \<Rightarrow> jsstring \<Rightarrow> jsstring" where
  "replace c r s = concat (map (\<lambda>x. if x = c then r else [x]) s)"

definition sanitizeText :: "jsval \<Rightarrow> jsstring" where
  "sanitizeText text =
     (if \<not> truthy text \<or> typeof text \<noteq> TString then []
      else (case text of
              JStr s \<Rightarrow>
                trim (replace (cu (CHR 0x27)) (js ''&#x27;'')
                     (replace (cu (CHR 0x22)) (js ''&quot;'')
                     (replace (cu CHR ''>'') (js ''&gt;'')
                     (replace (cu CHR ''<'') (js ''&lt;'')
                     (replace (cu CHR ''&'') (js ''&amp;'') s)))))
            | _ \<Rightarrow> []))"

section \<open>Errors\<close>

text \<open>
  What the host or the transport throws: an error object with its \<open>code\<close>, its \<open>message\<close>
  and what its \<open>toString()\<close> prints.
\<close>

record thrown =
  thrown_code :: jsval
  thrown_message :: jsstring
  thrown_toString :: jsstring

datatype media = Photo | Document

datatype origin = Dispatcher | RequestBuilder

text \<open>
  Every \<open>throw\<close> of the source, named after the error kinds of the specification. The data
  of each constructor is what the source prints into the message. \<open>ApiError\<close> is the
  \<open>NodeApiError\<close> of the source, the other kinds but \<open>HostError\<close> are its
  \<open>NodeOperationError\<close>s; both classes keep the message they are constructed with and
  have no \<open>code\<close> property. \<open>HostError\<close> is an error thrown by the host's parameter or
  credential lookup, passed on as it is.
\<close>

datatype failure =
    MissingToken
  | InvalidTokenFormat origin
  | InvalidChatId jsval
  | EmptyText
  | TextTooLong nat
  | InvalidMessageId
  | MissingMedia media
  | CaptionTooLong media nat
  | ApiError jsval jsval
  | ConnectionRefused
  | Timeout
  | RequestFailed thrown
  | UnknownAuthMethod jsval
  | HostError thrown

text \<open>
  Template literals print a value with \<open>ToString\<close>; how a number prints is the engine's
  \<open>Number.prototype.toString\<close>, a parameter here.
\<close>

fun js_toString :: "(jsnum \<Rightarrow> jsstring) \<Rightarrow> jsval \<Rightarrow> jsstring" where
  "js_toString numberToString JUndefined = js ''undefined''"
| "js_toString numberToString JNull = js ''null''"
| "js_toString numberToString (JBool b) = (if b then js ''true'' else js ''false'')"
| "js_toString numberToString (JNum n) = numberToString n"
| "js_toString numberToString (JStr s) = s"
| "js_toString numberToString (JObj m) = js ''[object Object]''"

fun media_name :: "media \<Rightarrow> jsstring" where
  "media_name Photo = js ''Photo''"
| "media_name Document = js ''Document''"

fun message_of :: "(jsnum \<Rightarrow> jsstring) \<Rightarrow> failure \<Rightarrow> jsstring" where
  "message_of numberToString MissingToken = js ''Bot token is required''"
| "message_of numberToString (InvalidTokenFormat Dispatcher) = js ''Invalid bot token format''"
| "message_of numberToString (InvalidTokenFormat RequestBuilder) =
     js ''Invalid bot token format. Expected format: 123456789:ABCdefGHIjklMNOpqrSTUvwxyz''"
| "message_of numberToString (InvalidChatId chatId) =
     js ''Invalid chat ID: '' @ js_toString numberToString chatId
       @ js ''. Use numeric ID or @username format.''"
| "message_of numberToString EmptyText = js ''Message text cannot be empty''"
| "message_of numberToString (TextTooLong n) =
     js ''Message text is too long ('' @ numberToString (Finite (of_nat n))
       @ js '' characters). Maximum is 4096 characters.''"
| "message_of numberToString InvalidMessageId = js ''Valid message ID is required''"
| "message_of numberToString (MissingMedia m) = media_name m @ js '' URL or file_id is required''"
| "message_of numberToString (CaptionTooLong m n) =
     media_name m @ js '' caption is too long ('' @ numberToString (Finite (of_nat n))
       @ js '' characters). Maximum is 1024 characters.''"
| "message_of numberToString (ApiError errorMessage error_code) =
     js ''Telegram API Error: '' @ js_toString numberToString errorMessage"
| "message_of numberToString ConnectionRefused =
     js ''Could not connect to Telegram API. Please check your internet connection.''"
| "message_of numberToString Timeout =
     js ''Request to Telegram API timed out. Please try again.''"
| "message_of numberToString (RequestFailed error) =
     js ''Telegram API request failed: ''
       @ (if thrown_message error \<noteq> [] then thrown_message error else thrown_toString error)"
| "message_of numberToString (UnknownAuthMethod authMethod) =
     js ''Invalid authentication method: '' @ js_toString numberToString authMethod"
| "message_of numberToString (HostError error) = thrown_message error"

text \<open>
  \<open>error.toString()\<close> is only asked for when the message is empty, and then prints the
  name of the error class.
\<close>

fun error_toString :: "failure \<Rightarrow> jsstring" where
  "error_toString (HostError error) = thrown_toString error"
| "error_toString (ApiError errorMessage error_code) = js ''NodeApiError''"
| "error_toString f = js ''NodeOperationError''"

text \<open>\<open>error.message || error.toString()\<close>\<close>

definition error_text :: "(jsnum \<Rightarrow> jsstring) \<Rightarrow> failure \<Rightarrow> jsstring" where
  "error_text numberToString error =
     (if message_of numberToString error \<noteq> [] then message_of numberToString error
      else error_toString error)"

section \<open>The execution context and the transport\<close>

record request_options =
  req_method :: jsstring
  req_headers :: IDataObject
  req_body :: IDataObject
  req_qs :: IDataObject
  req_url :: jsstring
  req_json :: bool
  req_timeout :: nat

text \<open>
  \<open>this\<close>: the host's parameter and credential lookup, its continue-on-fail setting, the
  input items, the HTTP helper \<open>this.helpers.request\<close> and the engine's printing of
  numbers. The transport answers a request with a response object (the envelope
  \<open>{ok, result, description, error_code}\<close> of the Bot API) or throws; its answer is a
  function of the request. Every call of the transport is recorded in a log, the state that
  the functions below pass along: each takes the requests sent so far and returns them with
  its own added.
\<close>

record IExecuteFunctions =
  getInputData :: "IDataObject list"
  getNodeParameter :: "jsstring \<Rightarrow> nat \<Rightarrow> thrown + jsval"
  getCredentials :: "jsstring \<Rightarrow> nat \<Rightarrow> thrown + IDataObject"
  continueOnFail :: bool
  request :: "request_options \<Rightarrow> thrown + IDataObject"
  numberToString :: "jsnum \<Rightarrow> jsstring"

type_synonym log = "request_options list"

definition telegramApiRequest ::
  "IExecuteFunctions \<Rightarrow> jsstring \<Rightarrow> jsstring \<Rightarrow> IDataObject \<Rightarrow> IDataObject \<Rightarrow> IDataObject \<Rightarrow> jsval
     \<Rightarrow> log \<Rightarrow> (failure + IDataObject) \<times> log" where
  "telegramApiRequest ctx method endpoint body qs headers botToken sent =
     (if \<not> truthy botToken then (Inl MissingToken, sent)
      else if \<not> validateBotToken botToken then (Inl (InvalidTokenFormat RequestBuilder), sent)
      else
        let options = \<lparr>
              req_method = method,
              req_headers = [js ''Content-Type'' \<mapsto> JStr (js ''application/json'')] ++ headers,
              req_body = body,
              req_qs = qs,
              req_url = js ''https://api.telegram.org/bot''
                          @ (case botToken of JStr t \<Rightarrow> t | _ \<Rightarrow> []) @ endpoint,
              req_json = True,
              req_timeout = 30000 \<rparr>
        in (case request ctx options of
              Inr response \<Rightarrow>
                if \<not> truthy (get_prop response (js ''ok'')) then
                  (Inl (ApiError
                          (if truthy (get_prop response (js ''description''))
                           then get_prop response (js ''description'')
                           else JStr (js ''Unknown Telegram API error''))
                          (get_prop response (js ''error_code''))),
                   sent @ [options])
                else (Inr response, sent @ [options])
            | Inl error \<Rightarrow>
                if thrown_code error = JStr (js ''ECONNREFUSED'') then
                  (Inl ConnectionRefused, sent @ [options])
                else if thrown_code error = JStr (js ''ETIMEDOUT'') then
                  (Inl Timeout, sent @ [options])
                else (Inl (RequestFailed error), sent @ [options])))"

section \<open>Operation functions\<close>

definition sendMessage ::
  "IExecuteFunctions \<Rightarrow> jsval \<Rightarrow> jsval \<Rightarrow> jsval \<Rightarrow> IDataObject \<Rightarrow> log
     \<Rightarrow> (failure + IDataObject) \<times> log" where
  "sendMessage ctx chatId text botToken additionalFields sent =
     (if \<not> validateChatId chatId then (Inl (InvalidChatId chatId), sent)
      else
        let sanitizedText = sanitizeText text in
        if \<not> truthy (JStr sanitizedText) then (Inl EmptyText, sent)
        else if length sanitizedText > 4096 then (Inl (TextTooLong (length sanitizedText)), sent)
        else
          let body = [js ''chat_id'' \<mapsto> chatId, js ''text'' \<mapsto> JStr sanitizedText]
                       ++ additionalFields
          in telegramApiRequest ctx (js ''POST'') (js ''/sendMessage'') body Map.empty Map.empty
               botToken sent)"

definition sendPhoto ::
  "IExecuteFunctions \<Rightarrow> jsval \<Rightarrow> jsval \<Rightarrow> jsval \<Rightarrow> IDataObject \<Rightarrow> log
     \<Rightarrow> (failure + IDataObject) \<times> log" where
  "sendPhoto ctx chatId photo botToken additionalFields sent =
     (if \<not> validateChatId chatId then (Inl (InvalidChatId chatId), sent)
      else if \<not> truthy photo then (Inl (MissingMedia Photo), sent)
      else
        let body = [js ''chat_id'' \<mapsto> chatId, js ''photo'' \<mapsto> photo] ++ additionalFields;
            caption = get_prop body (js ''caption'')
        in
          if truthy caption \<and> typeof caption = TString then
            let sanitized = sanitizeText caption;
                body' = body(js ''caption'' \<mapsto> JStr sanitized)
            in
              if length sanitized > 1024 then
                (Inl (CaptionTooLong Photo (length sanitized)), sent)
              else telegramApiRequest ctx (js ''POST'') (js ''/sendPhoto'') body' Map.empty
                     Map.empty botToken sent
          else telegramApiRequest ctx (js ''POST'') (js ''/sendPhoto'') body Map.empty Map.empty
                 botToken sent)"

definition sendDocument ::
  "IExecuteFunctions \<Rightarrow> jsval \<Rightarrow> jsval \<Rightarrow> jsval \<Rightarrow> IDataObject \<Rightarrow> log
     \<Rightarrow> (failure + IDataObject) \<times> log" where
  "sendDocument ctx chatId document botToken additionalFields sent =
     (if \<not> validateChatId chatId then (Inl (InvalidChatId chatId), sent)
      else if \<not> truthy document then (Inl (MissingMedia Document), sent)
      else
        let body = [js ''chat_id'' \<mapsto> chatId, js ''document'' \<mapsto> document] ++ additionalFields;
            caption = get_prop body (js ''caption'')
        in
          if truthy caption \<and> typeof caption = TString then
            let sanitized = sanitizeText caption;
                body' = body(js ''caption'' \<mapsto> JStr sanitized)
            in
              if length sanitized > 1024 then
                (Inl (CaptionTooLong Document (length sanitized)), sent)
              else telegramApiRequest ctx (js ''POST'') (js ''/sendDocument'') body' Map.empty
                     Map.empty botToken sent
          else telegramApiRequest ctx (js ''POST'') (js ''/sendDocument'') body Map.empty
                 Map.empty botToken sent)"

definition getChat ::
  "IExecuteFunctions \<Rightarrow> jsval \<Rightarrow> jsval \<Rightarrow> log \<Rightarrow> (failure + IDataObject) \<times> log" where
  "getChat ctx chatId botToken sent =
     (if \<not> validateChatId chatId then (Inl (InvalidChatId chatId), sent)
      else
        let body = [js ''chat_id'' \<mapsto> chatId]
        in telegramApiRequest ctx (js ''POST'') (js ''/getChat'') body Map.empty Map.empty
             botToken sent)"

definition getChatAdministrators ::
  "IExecuteFunctions \<Rightarrow> jsval \<Rightarrow> jsval \<Rightarrow> log \<Rightarrow> (failure + IDataObject) \<times> log" where
  "getChatAdministrators ctx chatId botToken sent =
     (if \<not> validateChatId chatId then (Inl (InvalidChatId chatId), sent)
      else
        let body = [js ''chat_id'' \<mapsto> chatId]
        in telegramApiRequest ctx (js ''POST'') (js ''/getChatAdministrators'') body Map.empty
             Map.empty botToken sent)"

definition editMessage ::
  "IExecuteFunctions \<Rightarrow> jsval \<Rightarrow> jsval \<Rightarrow> jsval \<Rightarrow> jsval \<Rightarrow> IDataObject \<Rightarrow> log
     \<Rightarrow> (failure + IDataObject) \<times> log" where
  "editMessage ctx chatId messageId text botToken additionalFields sent =
     (if \<not> validateChatId chatId then (Inl (InvalidChatId chatId), sent)
      else if \<not> truthy messageId \<or> typeof messageId \<noteq> TNumber then (Inl InvalidMessageId, sent)
      else
        let sanitizedText = sanitizeText text in
        if \<not> truthy (JStr sanitizedText) then (Inl EmptyText, sent)
        else if length sanitizedText > 4096 then (Inl (TextTooLong (length sanitizedText)), sent)
        else
          let body = [js ''chat_id'' \<mapsto> chatId, js ''message_id'' \<mapsto> messageId,
                      js ''text'' \<mapsto> JStr sanitizedText] ++ additionalFields
          in telegramApiRequest ctx (js ''POST'') (js ''/editMessageText'') body Map.empty
               Map.empty botToken sent)"

definition deleteMessage ::
  "IExecuteFunctions \<Rightarrow> jsval \<Rightarrow> jsval \<Rightarrow> jsval \<Rightarrow> log \<Rightarrow> (failure + IDataObject) \<times> log" where
  "deleteMessage ctx chatId messageId botToken sent =
     (if \<not> validateChatId chatId then (Inl (InvalidChatId chatId), sent)
      else if \<not> truthy messageId \<or> typeof messageId \<noteq> TNumber then (Inl InvalidMessageId, sent)
      else
        let body = [js ''chat_id'' \<mapsto> chatId, js ''message_id'' \<mapsto> messageId]
        in telegramApiRequest ctx (js ''POST'') (js ''/deleteMessage'') body Map.empty Map.empty
             botToken sent)"

section \<open>The dispatcher (TelegramMulti.execute)\<close>

record INodeExecutionData =
  json :: IDataObject
  pairedItem :: nat

text \<open>
  \<open>additionalFields\<close> is a collection parameter, so the host answers with an object: the
  entries that \<open>...additionalFields\<close> spreads are those of the object. \<open>undefined\<close>
  (replaced by the default \<open>{}\<close>), \<open>null\<close>, a boolean and a number spread no entry. A
  string, which would spread its characters, is not a value of a collection parameter and is
  given no entries either.
\<close>

definition fields_of :: "jsval \<Rightarrow> IDataObject" where
  "fields_of v = (case v of JObj m \<Rightarrow> m | _ \<Rightarrow> Map.empty)"

text \<open>The \<open>switch (authMethod)\<close>: where the token comes from.\<close>

definition execute_auth :: "IExecuteFunctions \<Rightarrow> jsval \<Rightarrow> nat \<Rightarrow> failure + jsval" where
  "execute_auth ctx authMethod i =
     (if authMethod = JStr (js ''credentials'') then
        (case getCredentials ctx (js ''telegramMultiApi'') i of
           Inl error \<Rightarrow> Inl (HostError error)
         | Inr credentials \<Rightarrow> Inr (get_prop credentials (js ''accessToken'')))
      else if authMethod = JStr (js ''environment'') then
        (case getNodeParameter ctx (js ''envToken'') i of
           Inl error \<Rightarrow> Inl (HostError error)
         | Inr botToken \<Rightarrow> Inr botToken)
      else if authMethod = JStr (js ''direct'') then
        (case getNodeParameter ctx (js ''directToken'') i of
           Inl error \<Rightarrow> Inl (HostError error)
         | Inr botToken \<Rightarrow> Inr botToken)
      else Inl (UnknownAuthMethod authMethod))"

text \<open>
  The chain of \<open>if (resource === ...)\<close>: \<open>responseData\<close> starts as \<open>{}\<close> and is
  assigned by the operation that the pair selects.
\<close>

definition execute_dispatch ::
  "IExecuteFunctions \<Rightarrow> nat \<Rightarrow> jsval \<Rightarrow> jsval \<Rightarrow> jsval \<Rightarrow> jsval \<Rightarrow> jsval \<Rightarrow> log
     \<Rightarrow> (failure + IDataObject) \<times> log" where
  "execute_dispatch ctx i resource operation chatId additionalFields botToken sent =
     (if resource = JStr (js ''message'') then
        if operation = JStr (js ''send'') then
          (case getNodeParameter ctx (js ''text'') i of
             Inl error \<Rightarrow> (Inl (HostError error), sent)
           | Inr text \<Rightarrow>
               sendMessage ctx chatId text botToken (fields_of additionalFields) sent)
        else if operation = JStr (js ''edit'') then
          (case getNodeParameter ctx (js ''text'') i of
             Inl error \<Rightarrow> (Inl (HostError error), sent)
           | Inr text \<Rightarrow>
               (case getNodeParameter ctx (js ''messageId'') i of
                  Inl error \<Rightarrow> (Inl (HostError error), sent)
                | Inr messageId \<Rightarrow>
                    editMessage ctx chatId messageId text botToken (fields_of additionalFields)
                      sent))
        else if operation = JStr (js ''delete'') then
          (case getNodeParameter ctx (js ''messageId'') i of
             Inl error \<Rightarrow> (Inl (HostError error), sent)
           | Inr messageId \<Rightarrow> deleteMessage ctx chatId messageId botToken sent)
        else (Inr Map.empty, sent)
      else if resource = JStr (js ''photo'') then
        if operation = JStr (js ''send'') then
          (case getNodeParameter ctx (js ''photo'') i of
             Inl error \<Rightarrow> (Inl (HostError error), sent)
           | Inr photo \<Rightarrow>
               sendPhoto ctx chatId photo botToken (fields_of additionalFields) sent)
        else (Inr Map.empty, sent)
      else if resource = JStr (js ''document'') then
        if operation = JStr (js ''send'') then
          (case getNodeParameter ctx (js ''document'') i of
             Inl error \<Rightarrow> (Inl (HostError error), sent)
           | Inr document \<Rightarrow>
               sendDocument ctx chatId document botToken (fields_of additionalFields) sent)
        else (Inr Map.empty, sent)
      else if resource = JStr (js ''chat'') then
        if operation = JStr (js ''get'') then getChat ctx chatId botToken sent
        else if operation = JStr (js ''getAdministrators'') then
          getChatAdministrators ctx chatId botToken sent
        else (Inr Map.empty, sent)
      else (Inr Map.empty, sent))"

text \<open>The body of the \<open>try\<close> for item \<open>i\<close>, up to the value of \<open>responseData\<close>.\<close>

definition execute_item ::
  "IExecuteFunctions \<Rightarrow> nat \<Rightarrow> log \<Rightarrow> (failure + IDataObject) \<times> log" where
  "execute_item ctx i sent =
     (case getNodeParameter ctx (js ''authMethod'') i of
        Inl error \<Rightarrow> (Inl (HostError error), sent)
      | Inr authMethod \<Rightarrow>
     (case execute_auth ctx authMethod i of
        Inl error \<Rightarrow> (Inl error, sent)
      | Inr botToken \<Rightarrow>
          if \<not> truthy botToken then (Inl MissingToken, sent)
          else if \<not> validateBotToken botToken then (Inl (InvalidTokenFormat Dispatcher), sent)
          else
     (case getNodeParameter ctx (js ''resource'') i of
        Inl error \<Rightarrow> (Inl (HostError error), sent)
      | Inr resource \<Rightarrow>
     (case getNodeParameter ctx (js ''operation'') i of
        Inl error \<Rightarrow> (Inl (HostError error), sent)
      | Inr operation \<Rightarrow>
     (case getNodeParameter ctx (js ''chatId'') i of
        Inl error \<Rightarrow> (Inl (HostError error), sent)
      | Inr chatId \<Rightarrow>
     (case getNodeParameter ctx (js ''additionalFields'') i of
        Inl error \<Rightarrow> (Inl (HostError error), sent)
      | Inr additionalFields \<Rightarrow>
          execute_dispatch ctx i resource operation chatId additionalFields botToken sent))))))"

text \<open>
  The \<open>for\<close> loop over the items, with the \<open>catch\<close>: a failure becomes an error record
  when the host continues on fail, and is thrown again otherwise.
\<close>

function execute_loop ::
  "IExecuteFunctions \<Rightarrow> nat \<Rightarrow> INodeExecutionData list \<Rightarrow> log
     \<Rightarrow> (failure + INodeExecutionData list) \<times> log" where
  "execute_loop ctx i returnData sent =
     (if i < length (getInputData ctx) then
        (case execute_item ctx i sent of
           (Inr responseData, sent') \<Rightarrow>
             execute_loop ctx (Suc i)
               (returnData @ [\<lparr>json = responseData, pairedItem = i\<rparr>]) sent'
         | (Inl error, sent') \<Rightarrow>
             if continueOnFail ctx then
               execute_loop ctx (Suc i)
                 (returnData @
                    [\<lparr>json = [js ''error'' \<mapsto> JStr (error_text (numberToString ctx) error)],
                      pairedItem = i\<rparr>]) sent'
             else (Inl error, sent'))
      else (Inr returnData, sent))"
  by pat_completeness auto
termination
  by (relation "measure (\<lambda>(ctx, i, returnData, sent). length (getInputData ctx) - i)") auto

definition execute ::
  "IExecuteFunctions \<Rightarrow> log \<Rightarrow> (failure + INodeExecutionData list list) \<times> log" where
  "execute ctx sent =
     (case execute_loop ctx 0 [] sent of
        (Inr returnData, sent') \<Rightarrow> (Inr [returnData], sent')
      | (Inl error, sent') \<Rightarrow> (Inl error, sent'))"

section \<open>The specification's shapes\<close>

text \<open>
  The shapes of section 3 of the specification, in its own words: which strings are bot
  tokens, integers and usernames. They are compared below with what the validators of the
  source accept.
\<close>

definition digits :: jsstring where
  "digits = js ''0123456789''"

definition letters :: jsstring where
  "letters = js ''abcdefghijklmnopqrstuvwxyzABCDEFGHIJKLMNOPQRSTUVWXYZ''"

text \<open>8 to 10 digits, a colon, 30 to 45 letters, digits, underscores or hyphens.\<close>

definition matches_token_pattern :: "jsstring \<Rightarrow> bool" where
  "matches_token_pattern s \<longleftrightarrow>
     (\<exists>botId secret. s = botId @ js '':'' @ secret
        \<and> 8 \<le> length botId \<and> length botId \<le> 10 \<and> set botId \<subseteq> set digits
        \<and> 30 \<le> length secret \<and> length secret \<le> 45
        \<and> set secret \<subseteq> set (letters @ digits @ js ''_-''))"

text \<open>The primitive values: \<open>undefined\<close>, \<open>null\<close>, booleans, numbers and strings.\<close>

fun primitive :: "jsval \<Rightarrow> bool" where
  "primitive (JObj m) = False"
| "primitive v = True"

text \<open>An optional minus sign and at least one digit; \<open>@\<close>, a letter, then 4 to 31 letters, digits or
  underscores.\<close>

definition integer_like :: "jsstring \<Rightarrow> bool" where
  "integer_like s \<longleftrightarrow>
     (\<exists>ds. ds \<noteq> [] \<and> set ds \<subseteq> set digits \<and> (s = ds \<or> s = js ''-'' @ ds))"

definition username_like :: "jsstring \<Rightarrow> bool" where
  "username_like s \<longleftrightarrow>
     (\<exists>c rest. s = js ''@'' @ [c] @ rest \<and> c \<in> set letters
        \<and> 4 \<le> length rest \<and> length rest \<le> 31
        \<and> set rest \<subseteq> set (letters @ digits @ js ''_''))"

section \<open>Examples\<close>

text \<open>
  The inputs of the specification's end-to-end examples: its token, a transport that answers
  \<open>{ok: true, result: {message_id: 1}}\<close>, and a batch whose items send \<open>Hello\<close> to
  \<open>@validchannel\<close>, but for the second item, whose chat is \<open>not a chat\<close>. No number is
  printed in these examples.
\<close>

definition example_token :: jsval where
  "example_token = JStr (js ''123456789:abcDEF012345678901234567890123'')"

definition mock_response :: IDataObject where
  "mock_response =
     [js ''ok'' \<mapsto> JBool True, js ''result'' \<mapsto> JObj [js ''message_id'' \<mapsto> JNum (Finite 1)]]"

definition mock_request :: "request_options \<Rightarrow> thrown + IDataObject" where
  "mock_request options = Inr mock_response"

definition mock_error :: thrown where
  "mock_error = \<lparr>thrown_code = JUndefined,
                  thrown_message = js ''Could not get parameter'',
                  thrown_toString = js ''Error: Could not get parameter''\<rparr>"

definition mock_parameters :: "string \<Rightarrow> string \<Rightarrow> jsstring \<Rightarrow> nat \<Rightarrow> thrown + jsval" where
  "mock_parameters resource operation name i =
     (if name = js ''authMethod'' then Inr (JStr (js ''direct''))
      else if name = js ''directToken'' then Inr example_token
      else if name = js ''resource'' then Inr (JStr (js resource))
      else if name = js ''operation'' then Inr (JStr (js operation))
      else if name = js ''chatId'' then
        Inr (JStr (if i = 1 then js ''not a chat'' else js ''@validchannel''))
      else if name = js ''text'' then Inr (JStr (js ''Hello''))
      else if name = js ''additionalFields'' then Inr (JObj Map.empty)
      else Inl mock_error)"

definition mock_context :: "string \<Rightarrow> string \<Rightarrow> bool \<Rightarrow> nat \<Rightarrow> IExecuteFunctions" where
  "mock_context resource operation continue n =
     \<lparr>getInputData = replicate n Map.empty,
      getNodeParameter = mock_parameters resource operation,
      getCredentials = (\<lambda>name i. Inl mock_error),
      continueOnFail = continue,
      request = mock_request,
      numberToString = (\<lambda>n. js ''0'')\<rparr>"

section \<open>Batches\<close>

text \<open>
  The seven pairs of resource and operation that \<open>execute\<close> dispatches; what the \<open>try\<close> body
  of item \<open>i\<close> yields and which requests it makes when it is run on its own; the record that
  \<open>execute\<close> pushes for it; and \<open>appends\<close>, for a function that only adds to the log of
  requests and whose result does not depend on the log.
\<close>

definition handled_pairs :: "(jsval \<times> jsval) set" where
  "handled_pairs =
     {(JStr (js ''message''), JStr (js ''send'')),
      (JStr (js ''message''), JStr (js ''edit'')),
      (JStr (js ''message''), JStr (js ''delete'')),
      (JStr (js ''photo''), JStr (js ''send'')),
      (JStr (js ''document''), JStr (js ''send'')),
      (JStr (js ''chat''), JStr (js ''get'')),
      (JStr (js ''chat''), JStr (js ''getAdministrators''))}"

definition item_outcome :: "IExecuteFunctions \<Rightarrow> nat \<Rightarrow> failure + IDataObject" where
  "item_outcome ctx i = fst (execute_item ctx i [])"

definition item_requests :: "IExecuteFunctions \<Rightarrow> nat \<Rightarrow> log" where
  "item_requests ctx i = snd (execute_item ctx i [])"

definition item_record :: "IExecuteFunctions \<Rightarrow> nat \<Rightarrow> INodeExecutionData" where
  "item_record ctx i =
     (case item_outcome ctx i of
        Inr responseData \<Rightarrow> \<lparr>json = responseData, pairedItem = i\<rparr>
      | Inl error \<Rightarrow>
          \<lparr>json = [js ''error'' \<mapsto> JStr (error_text (numberToString ctx) error)],
           pairedItem = i\<rparr>)"

definition appends :: "(log \<Rightarrow> 'a \<times> log) \<Rightarrow> bool" where
  "appends f \<longleftrightarrow> (\<exists>r q. \<forall>sent. f sent = (r, sent @ q))"

section \<open>Code units and literals\<close>

lemma unat_cu: "unat (cu c) = of_char c"
proof -
  have "unat (word_of_nat (of_char c) :: 16 word) = of_char c mod 2 ^ 16"
    by (simp add: unat_of_nat)
  moreover have "(of_char c :: nat) < 2 ^ 16"
    by (rule less_trans[OF nat_of_char_less_256]) simp
  ultimately show ?thesis
    by (simp add: cu_def of_nat_of_char)
qed

lemma cu_eq_iff: "cu c = cu d \<longleftrightarrow> c = d"
proof
  assume "cu c = cu d"
  then have "unat (cu c) = unat (cu d)" by simp
  then have "(of_char c :: nat) = of_char d" by (simp only: unat_cu)
  then show "c = d" by (simp only: of_char_eq_iff)
qed simp

lemma js_eq_iff: "js s = js t \<longleftrightarrow> s = t"
  unfolding js_def by (rule inj_map_eq_map) (simp add: inj_def cu_eq_iff)

section \<open>What the regular expressions accept\<close>

lemma js_Nil_iff [simp]: "js s = [] \<longleftrightarrow> s = []"
  by (simp add: js_def)

lemma length_js [simp]: "length (js s) = length s"
  by (simp add: js_def)

lemma regex_test_Rep:
  "regex_test (Rep cls lo hi # rest) s \<longleftrightarrow>
     (\<exists>xs ys. s = xs @ ys \<and> lo \<le> length xs \<and> (case hi of None \<Rightarrow> True | Some h \<Rightarrow> length xs \<le> h)
        \<and> set xs \<subseteq> Collect (in_class cls) \<and> regex_test rest ys)"
  (is "?L \<longleftrightarrow> ?R")
proof
  assume ?L
  then obtain n where n: "lo \<le> n" "n \<le> (case hi of None \<Rightarrow> length s | Some h \<Rightarrow> min h (length s))"
      "list_all (in_class cls) (take n s)" "regex_test rest (drop n s)"
    by (auto simp: list_ex_iff)
  then have "n \<le> length s" by (cases hi) auto
  with n show ?R
    by (intro exI[of _ "take n s"] exI[of _ "drop n s"]) (auto simp: list_all_iff split: option.splits)
next
  assume ?R
  then obtain xs ys where *: "s = xs @ ys" "lo \<le> length xs"
      "(case hi of None \<Rightarrow> True | Some h \<Rightarrow> length xs \<le> h)"
      "set xs \<subseteq> Collect (in_class cls)" "regex_test rest ys"
    by blast
  have "length xs \<in> set [lo ..< Suc (case hi of None \<Rightarrow> length s | Some h \<Rightarrow> min h (length s))]"
    using * by (auto split: option.splits)
  moreover have "list_all (in_class cls) (take (length xs) s) \<and> regex_test rest (drop (length xs) s)"
    using * by (auto simp: list_all_iff)
  ultimately show ?L
    unfolding regex_test.simps list_ex_iff by blast
qed


declare regex_test.simps(2) [simp del]

lemma regex_test_RepI:
  "s = xs @ ys \<Longrightarrow> lo \<le> length xs \<Longrightarrow> (case hi of None \<Rightarrow> True | Some h \<Rightarrow> length xs \<le> h)
     \<Longrightarrow> set xs \<subseteq> Collect (in_class cls) \<Longrightarrow> regex_test rest ys
     \<Longrightarrow> regex_test (Rep cls lo hi # rest) s"
  unfolding regex_test_Rep by blast

lemma in_class_single: "in_class (single c) x \<longleftrightarrow> x = cu c"
  by (auto simp: in_class_def single_def)

lemma in_class_digit: "in_class digit c \<longleftrightarrow> c \<in> set digits"
  by (simp add: in_class_def digit_def digits_def js_def cu_def word_le_nat_alt word_unat_eq_iff) arith

lemma in_class_letter:
  "in_class [(cu CHR ''a'', cu CHR ''z''), (cu CHR ''A'', cu CHR ''Z'')] c \<longleftrightarrow> c \<in> set letters"
  by (simp add: in_class_def letters_def js_def cu_def word_le_nat_alt word_unat_eq_iff) arith

lemma in_class_secret:
  "in_class [(cu CHR ''A'', cu CHR ''Z''), (cu CHR ''a'', cu CHR ''z''), (cu CHR ''0'', cu CHR ''9''),
             (cu CHR ''_'', cu CHR ''_''), (cu CHR ''-'', cu CHR ''-'')] c
   \<longleftrightarrow> c \<in> set (letters @ digits @ js ''_-'')"
  by (simp add: in_class_def letters_def digits_def js_def cu_def word_le_nat_alt word_unat_eq_iff)
    arith

lemma in_class_word:
  "in_class [(cu CHR ''a'', cu CHR ''z''), (cu CHR ''A'', cu CHR ''Z''), (cu CHR ''0'', cu CHR ''9''),
             (cu CHR ''_'', cu CHR ''_'')] c
   \<longleftrightarrow> c \<in> set (letters @ digits @ js ''_'')"
  by (simp add: in_class_def letters_def digits_def js_def cu_def word_le_nat_alt word_unat_eq_iff)
    arith

lemmas class_sets =
  in_class_digit[THEN Collect_cong, unfolded Collect_mem_eq]
  in_class_letter[THEN Collect_cong, unfolded Collect_mem_eq]
  in_class_secret[THEN Collect_cong, unfolded Collect_mem_eq]
  in_class_word[THEN Collect_cong, unfolded Collect_mem_eq]
  in_class_single[THEN Collect_cong, unfolded singleton_conv]

lemma singleton_class: "length xs = 1 \<Longrightarrow> set xs \<subseteq> {c} \<Longrightarrow> xs = [c]"
  by (cases xs) auto

lemma regex_test_tokenRegex: "regex_test tokenRegex s \<longleftrightarrow> matches_token_pattern s"
proof
  assume "regex_test tokenRegex s"
  then obtain a r1 b r2 c r3 where *: "s = a @ r1" "8 \<le> length a" "length a \<le> 10"
      "set a \<subseteq> set digits" "r1 = b @ r2" "1 \<le> length b" "length b \<le> 1" "set b \<subseteq> {cu CHR '':''}"
      "r2 = c @ r3" "30 \<le> length c" "length c \<le> 45" "set c \<subseteq> set (letters @ digits @ js ''_-'')"
      "r3 = []"
    unfolding tokenRegex_def regex_test_Rep regex_test.simps(1) class_sets option.case by blast
  then have "b = js '':''" using singleton_class[of b] by (simp add: js_def)
  with * show "matches_token_pattern s"
    unfolding matches_token_pattern_def by auto
next
  assume "matches_token_pattern s"
  then obtain a c where **: "s = a @ js '':'' @ c" "8 \<le> length a" "length a \<le> 10" "set a \<subseteq> set digits"
     "30 \<le> length c" "length c \<le> 45"
     "set c \<subseteq> set (letters @ digits @ js ''_-'')"
    unfolding matches_token_pattern_def by blast
  show "regex_test tokenRegex s"
    unfolding tokenRegex_def
    apply (rule regex_test_RepI[where xs = a and ys = "js '':'' @ c"])
        apply (simp_all add: class_sets **)
    apply (rule regex_test_RepI[where xs = "js '':''" and ys = c])
        apply (simp_all add: class_sets js_def)
    apply (rule regex_test_RepI[where xs = c and ys = "[]"])
        apply (use ** in \<open>auto simp: class_sets\<close>)
    done
qed

section \<open>Bot token validation\<close>

text \<open>
  C8. \<open>validateBotToken\<close> returns true exactly for the strings of the shape
  \<open>^\d{8,10}:[A-Za-z0-9_-]{30,45}$\<close>: 8 to 10 digits, a colon, then 30 to 45 letters, digits,
  underscores or hyphens. For every other input (\<open>null\<close>, \<open>undefined\<close>, a non-string, the
  empty string, a wrong digit count, a wrong secret length or character) it returns false.
\<close>

theorem validateBotToken_spec:
  "validateBotToken token \<longleftrightarrow> (\<exists>s. token = JStr s \<and> matches_token_pattern s)"
proof (cases token)
  case (JStr s)
  have "\<not> matches_token_pattern []" by (simp add: matches_token_pattern_def)
  then show ?thesis
    using JStr by (auto simp: validateBotToken_def regex_test_tokenRegex)
qed (simp_all add: validateBotToken_def)

theorem validateBotToken_spec_witness:
  "validateBotToken (JStr (js ''123456789:abcDEF012345678901234567890123''))
   \<and> \<not> validateBotToken JNull"
proof -
  have "matches_token_pattern (js ''123456789:abcDEF012345678901234567890123'')"
    unfolding matches_token_pattern_def
    by (intro exI[of _ "js ''123456789''"] exI[of _ "js ''abcDEF012345678901234567890123''"])
      (simp add: js_def digits_def letters_def)
  then show ?thesis
    using validateBotToken_spec[of "JStr (js ''123456789:abcDEF012345678901234567890123'')"]
      validateBotToken_spec[of JNull]
    by simp
qed

section \<open>Chat identifier validation\<close>

lemma regex_test_numericRegex: "regex_test numericRegex s \<longleftrightarrow> integer_like s"
proof
  assume "regex_test numericRegex s"
  then obtain a r1 b r2 where *: "s = a @ r1" "length a \<le> 1" "set a \<subseteq> {cu CHR ''-''}"
      "r1 = b @ r2" "1 \<le> length b" "set b \<subseteq> set digits" "r2 = []"
    unfolding numericRegex_def regex_test_Rep regex_test.simps(1) class_sets option.case by blast
  then have "a = [] \<or> a = js ''-''"
    using singleton_class[of a "cu CHR ''-''"] by (cases a) (auto simp: js_def)
  with * show "integer_like s"
    unfolding integer_like_def by (intro exI[of _ b]) auto
next
  assume "integer_like s"
  then obtain ds where **: "ds \<noteq> []" "set ds \<subseteq> set digits" "s = ds \<or> s = js ''-'' @ ds"
    unfolding integer_like_def by blast
  then have len: "1 \<le> length ds" by (cases ds) auto
  have tail: "regex_test [Rep digit 1 None] ds"
    by (rule regex_test_RepI[where xs = ds and ys = "[]"])
      (use ** len in \<open>simp_all add: class_sets\<close>)
  from **(3) show "regex_test numericRegex s"
  proof
    assume "s = ds"
    then show ?thesis
      unfolding numericRegex_def
      by (intro regex_test_RepI[where xs = "[]" and ys = ds] tail) simp_all
  next
    assume "s = js ''-'' @ ds"
    then show ?thesis
      unfolding numericRegex_def
      by (intro regex_test_RepI[where xs = "js ''-''" and ys = ds] tail)
        (simp_all add: class_sets js_def)
  qed
qed

lemma regex_test_usernameRegex: "regex_test usernameRegex s \<longleftrightarrow> username_like s"
proof
  assume "regex_test usernameRegex s"
  then obtain a r1 b r2 c r3 where *: "s = a @ r1" "1 \<le> length a" "length a \<le> 1"
      "set a \<subseteq> {cu CHR ''@''}" "r1 = b @ r2" "1 \<le> length b" "length b \<le> 1" "set b \<subseteq> set letters"
      "r2 = c @ r3" "4 \<le> length c" "length c \<le> 31" "set c \<subseteq> set (letters @ digits @ js ''_'')"
      "r3 = []"
    unfolding usernameRegex_def regex_test_Rep regex_test.simps(1) class_sets option.case by blast
  then have a: "a = js ''@''" using singleton_class[of a] by (simp add: js_def)
  from * obtain x where b: "b = [x]" "x \<in> set letters" by (cases b) auto
  from * a b show "username_like s"
    unfolding username_like_def by (intro exI[of _ x] exI[of _ c]) auto
next
  assume "username_like s"
  then obtain x c where **: "s = js ''@'' @ [x] @ c" "x \<in> set letters" "4 \<le> length c"
      "length c \<le> 31" "set c \<subseteq> set (letters @ digits @ js ''_'')"
    unfolding username_like_def by blast
  show "regex_test usernameRegex s"
    unfolding usernameRegex_def
    apply (rule regex_test_RepI[where xs = "js ''@''" and ys = "[x] @ c"])
        apply (simp_all add: class_sets ** js_def)
    apply (rule regex_test_RepI[where xs = "[x]" and ys = c])
        apply (simp_all add: class_sets **)
    apply (rule regex_test_RepI[where xs = c and ys = "[]"])
        apply (use ** in \<open>auto simp: class_sets\<close>)
    done
qed

lemma not_integer_like_true: "\<not> integer_like (js ''true'')"
  by (auto simp: integer_like_def js_def digits_def cu_def)

lemma username_like_startsWith: "username_like s \<Longrightarrow> startsWith s (js ''@'')"
  by (auto simp: username_like_def startsWith_def js_def)

text \<open>
  C1, as amended. On primitive inputs (\<open>undefined\<close>, \<open>null\<close>, booleans, numbers and
  strings), \<open>validateChatId\<close> returns true for every number other than \<open>0\<close> and \<open>NaN\<close> (an
  integer or not), for every string that is an optional minus sign followed by one or more
  digits, and for every string that is \<open>@\<close>, a letter and 4 to 31 further letters, digits or
  underscores. For every other primitive input, the number \<open>0\<close> among them, it returns false.
  Nothing is said of objects and arrays, where the result depends on what their \<open>toString\<close>
  prints.
\<close>

theorem validateChatId_spec:
  assumes "primitive chatId"
  shows "validateChatId chatId \<longleftrightarrow>
     (\<exists>n. chatId = JNum n \<and> n \<noteq> Finite 0 \<and> n \<noteq> NaN)
     \<or> (\<exists>s. chatId = JStr s \<and> (integer_like s \<or> username_like s))"
proof (cases chatId)
  case (JNum n)
  then show ?thesis by (cases n) auto
next
  case (JStr s)
  have "\<not> integer_like []" "\<not> username_like []"
    by (simp_all add: integer_like_def username_like_def js_def)
  then show ?thesis
    using JStr username_like_startsWith[of s]
    by (auto simp: regex_test_numericRegex regex_test_usernameRegex)
next
  case (JBool b)
  then show ?thesis
    by (simp add: regex_test_numericRegex not_integer_like_true)
next
  case (JObj m)
  then show ?thesis
    using assms by simp
qed simp_all

theorem validateChatId_spec_witness:
  "validateChatId (JStr (js ''-1009876543210'')) \<and> validateChatId (JStr (js ''@News_Channel1''))
   \<and> validateChatId (JNum (Finite (of_int (- 1009876543210)))) \<and> \<not> validateChatId (JBool True)
   \<and> \<not> validateChatId (JStr (js ''@ab''))"
proof -
  have "integer_like (js ''-1009876543210'')"
    unfolding integer_like_def
    by (intro exI[of _ "js ''1009876543210''"]) (simp add: js_def digits_def)
  moreover have "username_like (js ''@News_Channel1'')"
    unfolding username_like_def
    by (intro exI[of _ "cu CHR ''N''"] exI[of _ "js ''ews_Channel1''"])
      (simp add: js_def digits_def letters_def)
  moreover have "\<not> integer_like (js ''@ab'')"
    by (auto simp: integer_like_def js_def digits_def cu_def)
  moreover have "\<not> username_like (js ''@ab'')"
    by (auto simp: username_like_def js_def)
  ultimately show ?thesis
    using validateChatId_spec[of "JStr (js ''-1009876543210'')"]
      validateChatId_spec[of "JStr (js ''@News_Channel1'')"]
      validateChatId_spec[of "JNum (Finite (of_int (- 1009876543210)))"]
      validateChatId_spec[of "JBool True"]
      validateChatId_spec[of "JStr (js ''@ab'')"]
    by simp
qed

text \<open>
  The claim as stated fails at the integer \<open>0\<close>, which \<open>!chatId\<close> rejects, and at the
  number \<open>1.5\<close>, which is no integer and is accepted.
\<close>

theorem validateChatId_zero_counterexample:
  "\<not> validateChatId (JNum (Finite (of_int 0))) \<and> validateChatId (JNum (Finite (3 / 2)))"
  by simp

declare validateChatId.simps [simp del]

section \<open>Text sanitization\<close>

lemma replace_Nil [simp]: "replace c r [] = []"
  by (simp add: replace_def)

lemma replace_Cons: "replace c r (x # s) = (if x = c then r else [x]) @ replace c r s"
  by (simp add: replace_def)

lemma replace_append: "replace c r (s @ t) = replace c r s @ replace c r t"
  by (simp add: replace_def)

lemma length_replace_ge: "r \<noteq> [] \<Longrightarrow> length s \<le> length (replace c r s)"
proof (induction s)
  case (Cons x s)
  moreover from Cons.prems have "1 \<le> length r" by (cases r) auto
  ultimately show ?case by (auto simp: replace_Cons)
qed simp

lemma length_replace_gt:
  "c \<in> set s \<Longrightarrow> 2 \<le> length r \<Longrightarrow> length s < length (replace c r s)"
proof (induction s)
  case (Cons x s)
  from Cons.prems have r: "r \<noteq> []" by auto
  show ?case
  proof (cases "x = c")
    case True
    with Cons.prems length_replace_ge[OF r, of s c] show ?thesis
      by (simp add: replace_Cons)
  next
    case False
    with Cons show ?thesis by (simp add: replace_Cons)
  qed
qed simp

lemma replace_keeps_ends:
  assumes "s \<noteq> []" "\<not> P (hd s)" "\<not> P (last s)" "r \<noteq> []" "\<not> P (hd r)" "\<not> P (last r)"
  shows "replace c r s \<noteq> [] \<and> \<not> P (hd (replace c r s)) \<and> \<not> P (last (replace c r s))"
proof -
  from assms(1) obtain x t where s: "s = x # t" by (cases s) auto
  from assms(1) obtain u y where s': "s = u @ [y]" by (cases s rule: rev_cases) auto
  have "replace c r s \<noteq> []" using assms(4) by (simp add: s replace_Cons)
  moreover have "\<not> P (hd (replace c r s))"
    using assms by (simp add: s replace_Cons)
  moreover have "\<not> P (last (replace c r s))"
    using assms(3,4,6) unfolding s' by (simp add: replace_append replace_Cons)
  ultimately show ?thesis by simp
qed

lemma last_dropWhile: "dropWhile P xs \<noteq> [] \<Longrightarrow> last (dropWhile P xs) = last xs"
  by (induction xs) (auto split: if_splits)

lemma trim_ends:
  assumes "trim s \<noteq> []"
  shows "\<not> in_class whitespace (hd (trim s)) \<and> \<not> in_class whitespace (last (trim s))"
proof -
  let ?W = "in_class whitespace"
  let ?t = "dropWhile ?W s"
  let ?u = "dropWhile ?W (rev ?t)"
  from assms have u: "?u \<noteq> []" by (simp add: trim_def)
  have t: "?t \<noteq> []"
  proof
    assume "?t = []"
    then have "?u = []" by (simp only: rev.simps dropWhile.simps)
    with u show False by contradiction
  qed
  have "\<not> ?W (hd ?u)" using u by (rule hd_dropWhile)
  then have 1: "\<not> ?W (last (trim s))" using u by (simp add: trim_def last_rev)
  have "last ?u = last (rev ?t)" using u by (rule last_dropWhile)
  also have "\<dots> = hd ?t" using t by (simp add: last_rev)
  finally have "hd (trim s) = hd ?t" using u by (simp add: trim_def hd_rev)
  moreover have "\<not> ?W (hd ?t)" using t by (rule hd_dropWhile)
  ultimately show ?thesis using 1 by simp
qed

lemma trim_id:
  assumes "s \<noteq> []" "\<not> in_class whitespace (hd s)" "\<not> in_class whitespace (last s)"
  shows "trim s = s"
proof -
  from assms have 1: "dropWhile (in_class whitespace) s = s" by (cases s) auto
  from assms have "dropWhile (in_class whitespace) (rev s) = rev s"
    by (cases s rule: rev_cases) auto
  with 1 show ?thesis by (simp add: trim_def)
qed

lemma entity_ends:
  "\<not> in_class whitespace (cu CHR ''&'')" "\<not> in_class whitespace (cu CHR '';'')"
  by (simp_all add: in_class_def whitespace_def cu_def)

lemma sanitizeText_JStr:
  "sanitizeText (JStr s) =
     trim (replace (cu (CHR 0x27)) (js ''&#x27;'')
          (replace (cu (CHR 0x22)) (js ''&quot;'')
          (replace (cu CHR ''>'') (js ''&gt;'')
          (replace (cu CHR ''<'') (js ''&lt;'')
          (replace (cu CHR ''&'') (js ''&amp;'') s)))))"
  by (cases s) (simp_all add: sanitizeText_def trim_def)

lemma sanitizeText_twice_longer:
  assumes "cu CHR ''&'' \<in> set (sanitizeText (JStr x))"
  shows "length (sanitizeText (JStr x)) < length (sanitizeText (JStr (sanitizeText (JStr x))))"
proof -
  let ?W = "in_class whitespace"
  define y where "y = sanitizeText (JStr x)"
  define y1 where "y1 = replace (cu CHR ''&'') (js ''&amp;'') y"
  define y2 where "y2 = replace (cu CHR ''<'') (js ''&lt;'') y1"
  define y3 where "y3 = replace (cu CHR ''>'') (js ''&gt;'') y2"
  define y4 where "y4 = replace (cu (CHR 0x22)) (js ''&quot;'') y3"
  define y5 where "y5 = replace (cu (CHR 0x27)) (js ''&#x27;'') y4"
  from assms have amp: "cu CHR ''&'' \<in> set y" and ne: "y \<noteq> []" by (auto simp: y_def)
  have "y = trim (replace (cu (CHR 0x27)) (js ''&#x27;'')
          (replace (cu (CHR 0x22)) (js ''&quot;'')
          (replace (cu CHR ''>'') (js ''&gt;'')
          (replace (cu CHR ''<'') (js ''&lt;'')
          (replace (cu CHR ''&'') (js ''&amp;'') x)))))"
    by (simp add: y_def sanitizeText_JStr)
  with ne have e0: "y \<noteq> [] \<and> \<not> ?W (hd y) \<and> \<not> ?W (last y)"
    using trim_ends by metis
  have e1: "y1 \<noteq> [] \<and> \<not> ?W (hd y1) \<and> \<not> ?W (last y1)"
    unfolding y1_def using e0 by (intro replace_keeps_ends) (simp_all add: js_def entity_ends)
  have e2: "y2 \<noteq> [] \<and> \<not> ?W (hd y2) \<and> \<not> ?W (last y2)"
    unfolding y2_def using e1 by (intro replace_keeps_ends) (simp_all add: js_def entity_ends)
  have e3: "y3 \<noteq> [] \<and> \<not> ?W (hd y3) \<and> \<not> ?W (last y3)"
    unfolding y3_def using e2 by (intro replace_keeps_ends) (simp_all add: js_def entity_ends)
  have e4: "y4 \<noteq> [] \<and> \<not> ?W (hd y4) \<and> \<not> ?W (last y4)"
    unfolding y4_def using e3 by (intro replace_keeps_ends) (simp_all add: js_def entity_ends)
  have e5: "y5 \<noteq> [] \<and> \<not> ?W (hd y5) \<and> \<not> ?W (last y5)"
    unfolding y5_def using e4 by (intro replace_keeps_ends) (simp_all add: js_def entity_ends)
  have "sanitizeText (JStr y) = trim y5"
    by (simp add: sanitizeText_JStr y5_def y4_def y3_def y2_def y1_def)
  also have "\<dots> = y5" using e5 by (intro trim_id) simp_all
  finally have "length (sanitizeText (JStr y)) = length y5" by simp
  moreover have "length y < length y1"
    unfolding y1_def using amp by (intro length_replace_gt) (simp_all add: js_def)
  moreover have "length y1 \<le> length y2" unfolding y2_def by (intro length_replace_ge) (simp add: js_def)
  moreover have "length y2 \<le> length y3" unfolding y3_def by (intro length_replace_ge) (simp add: js_def)
  moreover have "length y3 \<le> length y4" unfolding y4_def by (intro length_replace_ge) (simp add: js_def)
  moreover have "length y4 \<le> length y5" unfolding y5_def by (intro length_replace_ge) (simp add: js_def)
  ultimately show ?thesis unfolding y_def by linarith
qed

lemma sanitizeText_amp: "sanitizeText (JStr (js ''&'')) = js ''&amp;''"
  by (simp add: sanitizeText_JStr replace_Cons js_def cu_def trim_def in_class_def whitespace_def)

text \<open>
  C9. \<open>sanitizeText\<close> is not idempotent: there is a string whose sanitized form changes
  when it is sanitized again. This holds for every string whose sanitized form contains an
  ampersand, such as \<open>&\<close> itself: the second pass escapes the \<open>&\<close> of the entity once more.
\<close>

theorem sanitizeText_not_idempotent:
  "(\<exists>x. sanitizeText (JStr (sanitizeText (JStr x))) \<noteq> sanitizeText (JStr x))
   \<and> (\<forall>x. cu CHR ''&'' \<in> set (sanitizeText (JStr x))
          \<longrightarrow> sanitizeText (JStr (sanitizeText (JStr x))) \<noteq> sanitizeText (JStr x))"
proof -
  have *: "sanitizeText (JStr (sanitizeText (JStr x))) \<noteq> sanitizeText (JStr x)"
    if "cu CHR ''&'' \<in> set (sanitizeText (JStr x))" for x
    using sanitizeText_twice_longer[OF that] by auto
  moreover have "cu CHR ''&'' \<in> set (sanitizeText (JStr (js ''&'')))"
    by (simp add: sanitizeText_amp; simp add: js_def)
  ultimately show ?thesis by blast
qed

theorem sanitizeText_not_idempotent_witness:
  "sanitizeText (JStr (js ''&'')) = js ''&amp;''
   \<and> sanitizeText (JStr (sanitizeText (JStr (js ''&'')))) \<noteq> js ''&amp;''"
proof -
  have "cu CHR ''&'' \<in> set (sanitizeText (JStr (js ''&'')))"
    by (simp add: sanitizeText_amp; simp add: js_def)
  then show ?thesis
    using sanitizeText_not_idempotent[THEN conjunct2, rule_format, of "js ''&''"]
    by (simp add: sanitizeText_amp)
qed

section \<open>The operation functions\<close>

lemma example_token_valid: "truthy example_token \<and> validateBotToken example_token"
proof -
  have "matches_token_pattern (js ''123456789:abcDEF012345678901234567890123'')"
    unfolding matches_token_pattern_def
    by (intro exI[of _ "js ''123456789''"] exI[of _ "js ''abcDEF012345678901234567890123''"])
      (simp add: js_def digits_def letters_def)
  then show ?thesis
    by (simp add: example_token_def validateBotToken_def regex_test_tokenRegex; simp add: js_def)
qed

lemma example_chat_valid: "validateChatId (JStr (js ''@validchannel''))"
proof -
  have "username_like (js ''@validchannel'')"
    unfolding username_like_def
    by (intro exI[of _ "cu CHR ''v''"] exI[of _ "js ''alidchannel''"])
      (simp add: js_def digits_def letters_def)
  then show ?thesis
    by (simp add: validateChatId.simps regex_test_usernameRegex startsWith_def; simp add: js_def)
qed

lemma example_chat_invalid: "\<not> validateChatId (JStr (js ''not a chat''))"
proof -
  have "\<not> integer_like (js ''not a chat'')"
    by (auto simp: integer_like_def js_def digits_def cu_def)
  then show ?thesis
    by (simp add: validateChatId.simps regex_test_numericRegex startsWith_def;
        simp add: js_def cu_def)
qed

lemma sanitizeText_Hello: "sanitizeText (JStr (js ''Hello'')) = js ''Hello''"
  by (simp add: sanitizeText_JStr replace_Cons js_def cu_def trim_def in_class_def whitespace_def)

lemma telegramApiRequest_mock:
  "telegramApiRequest (mock_context resource operation continue n) method endpoint body qs headers
     example_token sent
   = (Inr mock_response,
      sent @ [\<lparr>req_method = method,
               req_headers = [js ''Content-Type'' \<mapsto> JStr (js ''application/json'')] ++ headers,
               req_body = body, req_qs = qs,
               req_url = js ''https://api.telegram.org/bot''
                           @ js ''123456789:abcDEF012345678901234567890123'' @ endpoint,
               req_json = True, req_timeout = 30000\<rparr>])"
proof -
  have "truthy (get_prop mock_response (js ''ok''))"
    by (simp add: get_prop_def mock_response_def)
  then show ?thesis
    using example_token_valid
    by (simp add: telegramApiRequest_def mock_context_def mock_request_def)
      (simp add: example_token_def)
qed

lemma telegramApiRequest_failures:
  "fst (telegramApiRequest ctx method endpoint body qs headers botToken sent) = Inl e
   \<Longrightarrow> e = MissingToken \<or> e = InvalidTokenFormat RequestBuilder \<or> (\<exists>d c. e = ApiError d c)
       \<or> e = ConnectionRefused \<or> e = Timeout \<or> (\<exists>t. e = RequestFailed t)"
  by (auto simp: telegramApiRequest_def Let_def split: if_splits sum.splits)

text \<open>
  C3. Each of the seven operation functions, given a chat identifier that fails
  \<open>validateChatId\<close>, fails with \<open>InvalidChatId\<close> and leaves the log of transport calls as
  it was: no request is made.
\<close>

theorem invalid_chat_id_fails_first:
  assumes "\<not> validateChatId chatId"
  shows "sendMessage ctx chatId text botToken additionalFields sent = (Inl (InvalidChatId chatId), sent)
    \<and> editMessage ctx chatId messageId text botToken additionalFields sent
        = (Inl (InvalidChatId chatId), sent)
    \<and> deleteMessage ctx chatId messageId botToken sent = (Inl (InvalidChatId chatId), sent)
    \<and> sendPhoto ctx chatId photo botToken additionalFields sent = (Inl (InvalidChatId chatId), sent)
    \<and> sendDocument ctx chatId document botToken additionalFields sent
        = (Inl (InvalidChatId chatId), sent)
    \<and> getChat ctx chatId botToken sent = (Inl (InvalidChatId chatId), sent)
    \<and> getChatAdministrators ctx chatId botToken sent = (Inl (InvalidChatId chatId), sent)"
  using assms
  by (simp add: sendMessage_def editMessage_def deleteMessage_def sendPhoto_def sendDocument_def
      getChat_def getChatAdministrators_def)

theorem invalid_chat_id_fails_first_witness:
  "\<not> validateChatId (JStr (js ''not a chat''))
   \<and> sendMessage (mock_context ''message'' ''send'' False 1) (JStr (js ''not a chat''))
        (JStr (js ''Hello'')) example_token Map.empty []
      = (Inl (InvalidChatId (JStr (js ''not a chat''))), [])
   \<and> getChat (mock_context ''chat'' ''get'' False 1) (JStr (js ''not a chat'')) example_token []
      = (Inl (InvalidChatId (JStr (js ''not a chat''))), [])"
  using example_chat_invalid
    invalid_chat_id_fails_first[OF example_chat_invalid,
      of "mock_context ''message'' ''send'' False 1" "JStr (js ''Hello'')" example_token Map.empty "[]"]
    invalid_chat_id_fails_first[OF example_chat_invalid,
      of "mock_context ''chat'' ''get'' False 1" _ example_token _ "[]"]
  by simp

lemma telegramApiRequest_not_validation:
  "fst (telegramApiRequest ctx verb endpoint body qs headers botToken sent) \<noteq> Inl EmptyText"
  "fst (telegramApiRequest ctx verb endpoint body qs headers botToken sent) \<noteq> Inl (TextTooLong n)"
  "fst (telegramApiRequest ctx verb endpoint body qs headers botToken sent) \<noteq> Inl InvalidMessageId"
  "fst (telegramApiRequest ctx verb endpoint body qs headers botToken sent) \<noteq> Inl (CaptionTooLong m n)"
  using telegramApiRequest_failures[of ctx verb endpoint body qs headers botToken sent]
  by auto

lemma valid_messageId:
  "truthy messageId \<and> typeof messageId = TNumber
   \<longleftrightarrow> (\<exists>n. messageId = JNum n \<and> n \<noteq> Finite 0 \<and> n \<noteq> NaN)"
proof (cases messageId)
  case (JNum n)
  then show ?thesis by (cases n) auto
qed auto

text \<open>
  C7, as amended. For \<open>editMessage\<close> and \<open>deleteMessage\<close> with a valid chat identifier:
  a message identifier that is a number other than \<open>0\<close> and \<open>NaN\<close> passes the check (the call
  does not fail with \<open>InvalidMessageId\<close>), and every other message identifier (missing,
  not a number, \<open>0\<close>, \<open>NaN\<close>) makes the call fail with \<open>InvalidMessageId\<close> before any
  request.
\<close>

theorem message_id_check:
  assumes "validateChatId chatId"
  shows "((\<exists>n. messageId = JNum n \<and> n \<noteq> Finite 0 \<and> n \<noteq> NaN)
          \<longrightarrow> fst (editMessage ctx chatId messageId text botToken additionalFields sent)
                \<noteq> Inl InvalidMessageId
            \<and> fst (deleteMessage ctx chatId messageId botToken sent) \<noteq> Inl InvalidMessageId)
    \<and> (\<not> (\<exists>n. messageId = JNum n \<and> n \<noteq> Finite 0 \<and> n \<noteq> NaN)
          \<longrightarrow> editMessage ctx chatId messageId text botToken additionalFields sent
                = (Inl InvalidMessageId, sent)
            \<and> deleteMessage ctx chatId messageId botToken sent = (Inl InvalidMessageId, sent))"
  unfolding valid_messageId[symmetric]
  using assms
  by (auto simp: editMessage_def deleteMessage_def Let_def telegramApiRequest_not_validation)

theorem message_id_check_witness:
  "fst (deleteMessage (mock_context ''message'' ''delete'' False 1) (JStr (js ''@validchannel''))
          (JNum (Finite 42)) example_token []) \<noteq> Inl InvalidMessageId
   \<and> deleteMessage (mock_context ''message'' ''delete'' False 1) (JStr (js ''@validchannel''))
          JUndefined example_token [] = (Inl InvalidMessageId, [])
   \<and> editMessage (mock_context ''message'' ''edit'' False 1) (JStr (js ''@validchannel''))
          (JStr (js ''42'')) (JStr (js ''Hello'')) example_token Map.empty []
        = (Inl InvalidMessageId, [])"
  using message_id_check[OF example_chat_valid, of "JNum (Finite 42)"
          "mock_context ''message'' ''delete'' False 1" _ example_token _ "[]"]
    message_id_check[OF example_chat_valid, of JUndefined
          "mock_context ''message'' ''delete'' False 1" _ example_token _ "[]"]
    message_id_check[OF example_chat_valid, of "JStr (js ''42'')"
          "mock_context ''message'' ''edit'' False 1" "JStr (js ''Hello'')" example_token Map.empty "[]"]
  by simp

text \<open>
  The claim as stated fails at the message identifier \<open>0\<close>, which is present and numeric
  and is rejected by \<open>!messageId\<close>, and at a missing message identifier with an invalid
  chat identifier, where the call fails with \<open>InvalidChatId\<close>.
\<close>

theorem message_id_zero_counterexample:
  "deleteMessage (mock_context ''message'' ''delete'' False 1) (JStr (js ''@validchannel''))
      (JNum (Finite 0)) example_token [] = (Inl InvalidMessageId, [])
   \<and> deleteMessage (mock_context ''message'' ''delete'' False 1) (JStr (js ''not a chat''))
      JUndefined example_token [] = (Inl (InvalidChatId (JStr (js ''not a chat''))), [])"
  using example_chat_valid example_chat_invalid by (simp add: deleteMessage_def)

lemma sanitizeText_replicate:
  "sanitizeText (JStr (replicate n (cu CHR ''a''))) = replicate n (cu CHR ''a'')"
proof -
  have r: "replace c r (replicate n (cu CHR ''a'')) = replicate n (cu CHR ''a'')"
    if "c \<noteq> cu CHR ''a''" for c r
    using that by (induction n) (simp_all add: replace_Cons)
  have "\<not> in_class whitespace (cu CHR ''a'')"
    by (simp add: in_class_def whitespace_def cu_def)
  then show ?thesis
    by (simp add: sanitizeText_JStr r cu_eq_iff trim_def)
qed

text \<open>
  C5, as amended. For \<open>sendMessage\<close> with a valid chat identifier, and for \<open>editMessage\<close>
  with a valid chat identifier and a valid message identifier: the call fails with
  \<open>EmptyText\<close> exactly when the sanitized text is empty, fails with \<open>TextTooLong\<close> exactly
  when the sanitized text is longer than 4096 characters (a sanitized text of exactly 4096
  characters passes both checks), and otherwise builds the request and hands it to
  \<open>telegramApiRequest\<close>, which raises neither of the two errors.
\<close>

theorem text_checks:
  assumes "validateChatId chatId"
  shows "(sanitizeText text = []
          \<longrightarrow> sendMessage ctx chatId text botToken additionalFields sent = (Inl EmptyText, sent))
    \<and> (4096 < length (sanitizeText text)
          \<longrightarrow> sendMessage ctx chatId text botToken additionalFields sent
                = (Inl (TextTooLong (length (sanitizeText text))), sent))
    \<and> (sanitizeText text \<noteq> [] \<and> length (sanitizeText text) \<le> 4096
          \<longrightarrow> sendMessage ctx chatId text botToken additionalFields sent
                = telegramApiRequest ctx (js ''POST'') (js ''/sendMessage'')
                    ([js ''chat_id'' \<mapsto> chatId, js ''text'' \<mapsto> JStr (sanitizeText text)]
                       ++ additionalFields) Map.empty Map.empty botToken sent
            \<and> fst (sendMessage ctx chatId text botToken additionalFields sent) \<noteq> Inl EmptyText
            \<and> (\<forall>n. fst (sendMessage ctx chatId text botToken additionalFields sent)
                      \<noteq> Inl (TextTooLong n)))
    \<and> (truthy messageId \<and> typeof messageId = TNumber \<longrightarrow>
        (sanitizeText text = []
          \<longrightarrow> editMessage ctx chatId messageId text botToken additionalFields sent
                = (Inl EmptyText, sent))
        \<and> (4096 < length (sanitizeText text)
          \<longrightarrow> editMessage ctx chatId messageId text botToken additionalFields sent
                = (Inl (TextTooLong (length (sanitizeText text))), sent))
        \<and> (sanitizeText text \<noteq> [] \<and> length (sanitizeText text) \<le> 4096
          \<longrightarrow> editMessage ctx chatId messageId text botToken additionalFields sent
                = telegramApiRequest ctx (js ''POST'') (js ''/editMessageText'')
                    ([js ''chat_id'' \<mapsto> chatId, js ''message_id'' \<mapsto> messageId,
                      js ''text'' \<mapsto> JStr (sanitizeText text)] ++ additionalFields)
                    Map.empty Map.empty botToken sent
            \<and> fst (editMessage ctx chatId messageId text botToken additionalFields sent)
                  \<noteq> Inl EmptyText
            \<and> (\<forall>n. fst (editMessage ctx chatId messageId text botToken additionalFields sent)
                      \<noteq> Inl (TextTooLong n))))"
proof -
  have send: "sendMessage ctx chatId text botToken additionalFields sent =
     (if sanitizeText text = [] then (Inl EmptyText, sent)
      else if 4096 < length (sanitizeText text)
        then (Inl (TextTooLong (length (sanitizeText text))), sent)
      else telegramApiRequest ctx (js ''POST'') (js ''/sendMessage'')
             ([js ''chat_id'' \<mapsto> chatId, js ''text'' \<mapsto> JStr (sanitizeText text)]
                ++ additionalFields) Map.empty Map.empty botToken sent)"
    using assms by (simp add: sendMessage_def Let_def)
  have edit: "editMessage ctx chatId messageId text botToken additionalFields sent =
     (if sanitizeText text = [] then (Inl EmptyText, sent)
      else if 4096 < length (sanitizeText text)
        then (Inl (TextTooLong (length (sanitizeText text))), sent)
      else telegramApiRequest ctx (js ''POST'') (js ''/editMessageText'')
             ([js ''chat_id'' \<mapsto> chatId, js ''message_id'' \<mapsto> messageId,
               js ''text'' \<mapsto> JStr (sanitizeText text)] ++ additionalFields)
             Map.empty Map.empty botToken sent)"
    if "truthy messageId" "typeof messageId = TNumber"
    using assms that by (simp add: editMessage_def Let_def)
  show ?thesis
    using edit by (auto simp: send telegramApiRequest_not_validation)
qed

theorem text_checks_witness:
  "sendMessage (mock_context ''message'' ''send'' False 1) (JStr (js ''@validchannel''))
      (JStr (replicate 4097 (cu CHR ''a''))) example_token Map.empty []
    = (Inl (TextTooLong 4097), [])
   \<and> fst (sendMessage (mock_context ''message'' ''send'' False 1) (JStr (js ''@validchannel''))
      (JStr (replicate 4096 (cu CHR ''a''))) example_token Map.empty [])
    = Inr mock_response
   \<and> editMessage (mock_context ''message'' ''edit'' False 1) (JStr (js ''@validchannel''))
      (JNum (Finite 7)) (JStr (js ''   '')) example_token Map.empty []
    = (Inl EmptyText, [])"
proof -
  have e: "sanitizeText (JStr (js ''   '')) = []"
    by (simp add: sanitizeText_JStr replace_Cons js_def cu_def trim_def in_class_def whitespace_def)
  show ?thesis
    using text_checks[OF example_chat_valid, of "JStr (replicate 4097 (cu CHR ''a''))"
        "mock_context ''message'' ''send'' False 1" example_token Map.empty "[]"]
      text_checks[OF example_chat_valid, of "JStr (replicate 4096 (cu CHR ''a''))"
        "mock_context ''message'' ''send'' False 1" example_token Map.empty "[]"]
      text_checks[OF example_chat_valid, of "JStr (js ''   '')"
        "mock_context ''message'' ''edit'' False 1" example_token Map.empty "[]" "JNum (Finite 7)"]
    by (simp add: sanitizeText_replicate e telegramApiRequest_mock)
qed

text \<open>
  The claim as stated fails for \<open>editMessage\<close> with a valid chat identifier, the message
  identifier \<open>0\<close> and an empty text: the message identifier is checked before the text, and
  the call fails with \<open>InvalidMessageId\<close>, not with \<open>EmptyText\<close>.
\<close>

theorem edit_text_check_counterexample:
  "sanitizeText (JStr []) = []
   \<and> validateChatId (JStr (js ''@validchannel''))
   \<and> editMessage (mock_context ''message'' ''edit'' False 1) (JStr (js ''@validchannel''))
        (JNum (Finite 0)) (JStr []) example_token Map.empty []
      = (Inl InvalidMessageId, [])"
  by (simp add: editMessage_def sanitizeText_def example_chat_valid)

lemma caption_string:
  assumes "validateChatId chatId" and "additionalFields (js ''caption'') = Some (JStr caption)"
  shows "(truthy photo \<longrightarrow>
           (1024 < length (sanitizeText (JStr caption))
              \<longrightarrow> sendPhoto ctx chatId photo botToken additionalFields sent
                    = (Inl (CaptionTooLong Photo (length (sanitizeText (JStr caption)))), sent))
         \<and> (length (sanitizeText (JStr caption)) \<le> 1024
              \<longrightarrow> sendPhoto ctx chatId photo botToken additionalFields sent
                    = telegramApiRequest ctx (js ''POST'') (js ''/sendPhoto'')
                        (([js ''chat_id'' \<mapsto> chatId, js ''photo'' \<mapsto> photo] ++ additionalFields)
                           (js ''caption'' \<mapsto> JStr (sanitizeText (JStr caption))))
                        Map.empty Map.empty botToken sent
                \<and> (\<forall>m n. fst (sendPhoto ctx chatId photo botToken additionalFields sent)
                            \<noteq> Inl (CaptionTooLong m n))))
    \<and> (truthy document \<longrightarrow>
           (1024 < length (sanitizeText (JStr caption))
              \<longrightarrow> sendDocument ctx chatId document botToken additionalFields sent
                    = (Inl (CaptionTooLong Document (length (sanitizeText (JStr caption)))), sent))
         \<and> (length (sanitizeText (JStr caption)) \<le> 1024
              \<longrightarrow> sendDocument ctx chatId document botToken additionalFields sent
                    = telegramApiRequest ctx (js ''POST'') (js ''/sendDocument'')
                        (([js ''chat_id'' \<mapsto> chatId, js ''document'' \<mapsto> document]
                            ++ additionalFields)
                           (js ''caption'' \<mapsto> JStr (sanitizeText (JStr caption))))
                        Map.empty Map.empty botToken sent
                \<and> (\<forall>m n. fst (sendDocument ctx chatId document botToken additionalFields sent)
                            \<noteq> Inl (CaptionTooLong m n))))"
proof -
  have cap: "get_prop (base ++ additionalFields) (js ''caption'') = JStr caption" for base
    using assms(2) by (simp add: get_prop_def map_add_def)
  have same: "(base ++ additionalFields)(js ''caption'' \<mapsto> JStr [])
      = base ++ additionalFields" if "caption = []" for base
    using assms(2) that by (auto simp: map_add_def fun_eq_iff)
  have empty: "sanitizeText (JStr []) = []" by (simp add: sanitizeText_def)
  have photo: "sendPhoto ctx chatId photo botToken additionalFields sent =
      (if 1024 < length (sanitizeText (JStr caption))
       then (Inl (CaptionTooLong Photo (length (sanitizeText (JStr caption)))), sent)
       else telegramApiRequest ctx (js ''POST'') (js ''/sendPhoto'')
              (([js ''chat_id'' \<mapsto> chatId, js ''photo'' \<mapsto> photo] ++ additionalFields)
                 (js ''caption'' \<mapsto> JStr (sanitizeText (JStr caption))))
              Map.empty Map.empty botToken sent)" if "truthy photo"
    using assms(1) that
    by (cases "caption = []") (simp_all add: sendPhoto_def Let_def cap same empty)
  have document: "sendDocument ctx chatId document botToken additionalFields sent =
      (if 1024 < length (sanitizeText (JStr caption))
       then (Inl (CaptionTooLong Document (length (sanitizeText (JStr caption)))), sent)
       else telegramApiRequest ctx (js ''POST'') (js ''/sendDocument'')
              (([js ''chat_id'' \<mapsto> chatId, js ''document'' \<mapsto> document] ++ additionalFields)
                 (js ''caption'' \<mapsto> JStr (sanitizeText (JStr caption))))
              Map.empty Map.empty botToken sent)" if "truthy document"
    using assms(1) that
    by (cases "caption = []") (simp_all add: sendDocument_def Let_def cap same empty)
  show ?thesis
    using photo document by (auto simp: telegramApiRequest_not_validation)
qed

lemma caption_other:
  assumes "validateChatId chatId" and "additionalFields (js ''caption'') = Some caption"
    and "typeof caption \<noteq> TString"
  shows "(truthy photo \<longrightarrow>
           sendPhoto ctx chatId photo botToken additionalFields sent
             = telegramApiRequest ctx (js ''POST'') (js ''/sendPhoto'')
                 ([js ''chat_id'' \<mapsto> chatId, js ''photo'' \<mapsto> photo] ++ additionalFields)
                 Map.empty Map.empty botToken sent)
    \<and> (truthy document \<longrightarrow>
           sendDocument ctx chatId document botToken additionalFields sent
             = telegramApiRequest ctx (js ''POST'') (js ''/sendDocument'')
                 ([js ''chat_id'' \<mapsto> chatId, js ''document'' \<mapsto> document] ++ additionalFields)
                 Map.empty Map.empty botToken sent)"
proof -
  have cap: "get_prop (base ++ additionalFields) (js ''caption'') = caption" for base
    using assms(2) by (simp add: get_prop_def map_add_def)
  show ?thesis
    using assms(1,3) by (simp add: sendPhoto_def sendDocument_def Let_def cap)
qed

text \<open>
  C6, as amended. For \<open>sendPhoto\<close> and \<open>sendDocument\<close> with a valid chat identifier and a
  non-empty media reference: a caption among the additional fields that is a string is
  sanitized, the call fails with \<open>CaptionTooLong\<close> exactly when the sanitized caption is
  longer than 1024 characters, and otherwise (a sanitized caption of exactly 1024 characters
  included) the request is built with the sanitized caption and handed to
  \<open>telegramApiRequest\<close>. A caption that is present and is not a string is neither sanitized
  nor measured: the request is built with the caption as it was given, and the call does not
  fail with \<open>CaptionTooLong\<close>.
\<close>

theorem caption_check:
  assumes "validateChatId chatId" and "additionalFields (js ''caption'') = Some caption"
  shows "(typeof caption = TString \<longrightarrow>
       (truthy photo \<longrightarrow>
           (1024 < length (sanitizeText caption)
              \<longrightarrow> sendPhoto ctx chatId photo botToken additionalFields sent
                    = (Inl (CaptionTooLong Photo (length (sanitizeText caption))), sent))
         \<and> (length (sanitizeText caption) \<le> 1024
              \<longrightarrow> sendPhoto ctx chatId photo botToken additionalFields sent
                    = telegramApiRequest ctx (js ''POST'') (js ''/sendPhoto'')
                        (([js ''chat_id'' \<mapsto> chatId, js ''photo'' \<mapsto> photo] ++ additionalFields)
                           (js ''caption'' \<mapsto> JStr (sanitizeText caption)))
                        Map.empty Map.empty botToken sent
                \<and> (\<forall>m n. fst (sendPhoto ctx chatId photo botToken additionalFields sent)
                            \<noteq> Inl (CaptionTooLong m n))))
       \<and> (truthy document \<longrightarrow>
           (1024 < length (sanitizeText caption)
              \<longrightarrow> sendDocument ctx chatId document botToken additionalFields sent
                    = (Inl (CaptionTooLong Document (length (sanitizeText caption))), sent))
         \<and> (length (sanitizeText caption) \<le> 1024
              \<longrightarrow> sendDocument ctx chatId document botToken additionalFields sent
                    = telegramApiRequest ctx (js ''POST'') (js ''/sendDocument'')
                        (([js ''chat_id'' \<mapsto> chatId, js ''document'' \<mapsto> document]
                            ++ additionalFields)
                           (js ''caption'' \<mapsto> JStr (sanitizeText caption)))
                        Map.empty Map.empty botToken sent
                \<and> (\<forall>m n. fst (sendDocument ctx chatId document botToken additionalFields sent)
                            \<noteq> Inl (CaptionTooLong m n)))))
    \<and> (typeof caption \<noteq> TString \<longrightarrow>
       (truthy photo \<longrightarrow>
           sendPhoto ctx chatId photo botToken additionalFields sent
             = telegramApiRequest ctx (js ''POST'') (js ''/sendPhoto'')
                 ([js ''chat_id'' \<mapsto> chatId, js ''photo'' \<mapsto> photo] ++ additionalFields)
                 Map.empty Map.empty botToken sent
           \<and> (\<forall>m n. fst (sendPhoto ctx chatId photo botToken additionalFields sent)
                       \<noteq> Inl (CaptionTooLong m n)))
       \<and> (truthy document \<longrightarrow>
           sendDocument ctx chatId document botToken additionalFields sent
             = telegramApiRequest ctx (js ''POST'') (js ''/sendDocument'')
                 ([js ''chat_id'' \<mapsto> chatId, js ''document'' \<mapsto> document] ++ additionalFields)
                 Map.empty Map.empty botToken sent
           \<and> (\<forall>m n. fst (sendDocument ctx chatId document botToken additionalFields sent)
                       \<noteq> Inl (CaptionTooLong m n))))"
proof (cases "typeof caption = TString")
  case True
  then obtain c where c: "caption = JStr c" by (cases caption) auto
  have af: "additionalFields (js ''caption'') = Some (JStr c)"
    using assms(2) c by simp
  note string = caption_string[where additionalFields = additionalFields and caption = c
      and chatId = chatId and photo = photo and document = document and ctx = ctx
      and botToken = botToken and sent = sent, OF assms(1) af]
  show ?thesis
    using string True unfolding c by blast
next
  case False
  note other = caption_other[where additionalFields = additionalFields and caption = caption
      and chatId = chatId and photo = photo and document = document and ctx = ctx
      and botToken = botToken and sent = sent, OF assms False]
  show ?thesis
    using other False by (auto simp: telegramApiRequest_not_validation)
qed

theorem caption_check_witness:
  "sendPhoto (mock_context ''photo'' ''send'' False 1) (JStr (js ''@validchannel''))
      (JStr (js ''https://example.org/cat.png'')) example_token
      [js ''caption'' \<mapsto> JStr (replicate 1025 (cu CHR ''a''))] []
    = (Inl (CaptionTooLong Photo 1025), [])
   \<and> fst (sendDocument (mock_context ''document'' ''send'' False 1) (JStr (js ''@validchannel''))
      (JStr (js ''https://example.org/cat.pdf'')) example_token
      [js ''caption'' \<mapsto> JStr (replicate 1024 (cu CHR ''a''))] [])
    = Inr mock_response
   \<and> get_prop (req_body (hd (snd (sendPhoto (mock_context ''photo'' ''send'' False 1)
         (JStr (js ''@validchannel'')) (JStr (js ''https://example.org/cat.png'')) example_token
         [js ''caption'' \<mapsto> JStr (js ''  <b> '')] [])))) (js ''caption'')
    = JStr (js ''&lt;b&gt;'')
   \<and> get_prop (req_body (hd (snd (sendDocument (mock_context ''document'' ''send'' False 1)
         (JStr (js ''@validchannel'')) (JStr (js ''https://example.org/cat.pdf'')) example_token
         [js ''caption'' \<mapsto> JBool True] [])))) (js ''caption'')
    = JBool True"
proof -
  have b: "sanitizeText (JStr (js ''  <b> '')) = js ''&lt;b&gt;''"
    by (simp add: sanitizeText_JStr replace_Cons js_def cu_def trim_def in_class_def whitespace_def)
  have t: "truthy (JStr (js ''https://example.org/cat.png''))"
     "truthy (JStr (js ''https://example.org/cat.pdf''))"
    by simp_all
  show ?thesis
    using caption_check[OF example_chat_valid,
        of "[js ''caption'' \<mapsto> JStr (replicate 1025 (cu CHR ''a''))]"
        "JStr (replicate 1025 (cu CHR ''a''))" "JStr (js ''https://example.org/cat.png'')"
        "mock_context ''photo'' ''send'' False 1" example_token "[]"]
      caption_check[OF example_chat_valid,
        of "[js ''caption'' \<mapsto> JStr (replicate 1024 (cu CHR ''a''))]"
        "JStr (replicate 1024 (cu CHR ''a''))" _
        "mock_context ''document'' ''send'' False 1" example_token "[]"
        "JStr (js ''https://example.org/cat.pdf'')"]
      caption_check[OF example_chat_valid, of "[js ''caption'' \<mapsto> JStr (js ''  <b> '')]"
        "JStr (js ''  <b> '')" "JStr (js ''https://example.org/cat.png'')"
        "mock_context ''photo'' ''send'' False 1" example_token "[]"]
      caption_check[OF example_chat_valid, of "[js ''caption'' \<mapsto> JBool True]"
        "JBool True" _
        "mock_context ''document'' ''send'' False 1" example_token "[]"
        "JStr (js ''https://example.org/cat.pdf'')"]
    by (simp add: sanitizeText_replicate b t telegramApiRequest_mock get_prop_def)
qed

text \<open>
  The claim as stated fails at a caption that is present and is not a string: the caption \<open>5\<close>
  is sent as \<open>5\<close>, while sanitizing it gives the empty string.
\<close>

theorem caption_not_sanitized_counterexample:
  "sanitizeText (JNum (Finite 5)) = []
   \<and> length (snd (sendPhoto (mock_context ''photo'' ''send'' False 1)
         (JStr (js ''@validchannel'')) (JStr (js ''https://example.org/cat.png'')) example_token
         [js ''caption'' \<mapsto> JNum (Finite 5)] [])) = 1
   \<and> get_prop (req_body (hd (snd (sendPhoto (mock_context ''photo'' ''send'' False 1)
         (JStr (js ''@validchannel'')) (JStr (js ''https://example.org/cat.png'')) example_token
         [js ''caption'' \<mapsto> JNum (Finite 5)] [])))) (js ''caption'')
    = JNum (Finite 5)"
  by (simp add: sanitizeText_def sendPhoto_def example_chat_valid telegramApiRequest_mock
      get_prop_def js_eq_iff)

lemma telegramApiRequest_sent:
  assumes "truthy botToken" "validateBotToken botToken"
  shows "\<exists>options. snd (telegramApiRequest ctx method endpoint body qs headers botToken sent)
            = sent @ [options] \<and> req_body options = body"
  using assms by (auto simp: telegramApiRequest_def Let_def split: sum.splits)

text \<open>
  C2, as amended. In a \<open>sendMessage\<close> or \<open>editMessage\<close> call that passes its checks, the
  additional fields are spread after the fields computed by the function: for each of
  \<open>chat_id\<close>, \<open>text\<close> and \<open>message_id\<close>, the body of the request carries the caller's value
  when the additional fields contain that key, and the computed value when they do not.
\<close>

theorem additional_fields_merge:
  assumes "validateChatId chatId" "sanitizeText text \<noteq> []" "length (sanitizeText text) \<le> 4096"
    and "truthy botToken" "validateBotToken botToken"
  shows "(\<exists>options. snd (sendMessage ctx chatId text botToken additionalFields sent) = sent @ [options]
           \<and> get_prop (req_body options) (js ''chat_id'')
               = (case additionalFields (js ''chat_id'') of None \<Rightarrow> chatId | Some v \<Rightarrow> v)
           \<and> get_prop (req_body options) (js ''text'')
               = (case additionalFields (js ''text'') of
                    None \<Rightarrow> JStr (sanitizeText text) | Some v \<Rightarrow> v))
    \<and> (truthy messageId \<and> typeof messageId = TNumber \<longrightarrow>
        (\<exists>options. snd (editMessage ctx chatId messageId text botToken additionalFields sent)
             = sent @ [options]
           \<and> get_prop (req_body options) (js ''chat_id'')
               = (case additionalFields (js ''chat_id'') of None \<Rightarrow> chatId | Some v \<Rightarrow> v)
           \<and> get_prop (req_body options) (js ''message_id'')
               = (case additionalFields (js ''message_id'') of None \<Rightarrow> messageId | Some v \<Rightarrow> v)
           \<and> get_prop (req_body options) (js ''text'')
               = (case additionalFields (js ''text'') of
                    None \<Rightarrow> JStr (sanitizeText text) | Some v \<Rightarrow> v)))"
proof -
  have keys: "js ''chat_id'' \<noteq> js ''text''" "js ''chat_id'' \<noteq> js ''message_id''"
      "js ''message_id'' \<noteq> js ''text''"
    by (simp_all add: js_eq_iff)
  have send: "sendMessage ctx chatId text botToken additionalFields sent
      = telegramApiRequest ctx (js ''POST'') (js ''/sendMessage'')
          ([js ''chat_id'' \<mapsto> chatId, js ''text'' \<mapsto> JStr (sanitizeText text)]
             ++ additionalFields) Map.empty Map.empty botToken sent"
    using assms by (simp add: sendMessage_def Let_def)
  have edit: "editMessage ctx chatId messageId text botToken additionalFields sent
      = telegramApiRequest ctx (js ''POST'') (js ''/editMessageText'')
          ([js ''chat_id'' \<mapsto> chatId, js ''message_id'' \<mapsto> messageId,
            js ''text'' \<mapsto> JStr (sanitizeText text)] ++ additionalFields)
          Map.empty Map.empty botToken sent"
    if "truthy messageId" "typeof messageId = TNumber"
    using assms that by (simp add: editMessage_def Let_def)
  have body: "get_prop (base ++ additionalFields) k
      = (case additionalFields k of None \<Rightarrow> get_prop base k | Some v \<Rightarrow> v)" for base k
    by (simp add: get_prop_def map_add_def split: option.splits)
  have base:
    "get_prop [js ''chat_id'' \<mapsto> chatId, js ''text'' \<mapsto> JStr (sanitizeText text)]
       (js ''chat_id'') = chatId"
    "get_prop [js ''chat_id'' \<mapsto> chatId, js ''text'' \<mapsto> JStr (sanitizeText text)]
       (js ''text'') = JStr (sanitizeText text)"
    "get_prop [js ''chat_id'' \<mapsto> chatId, js ''message_id'' \<mapsto> messageId,
               js ''text'' \<mapsto> JStr (sanitizeText text)] (js ''chat_id'') = chatId"
    "get_prop [js ''chat_id'' \<mapsto> chatId, js ''message_id'' \<mapsto> messageId,
               js ''text'' \<mapsto> JStr (sanitizeText text)] (js ''message_id'') = messageId"
    "get_prop [js ''chat_id'' \<mapsto> chatId, js ''message_id'' \<mapsto> messageId,
               js ''text'' \<mapsto> JStr (sanitizeText text)] (js ''text'') = JStr (sanitizeText text)"
    using keys by (simp_all add: get_prop_def)
  have 1: "\<exists>options. snd (sendMessage ctx chatId text botToken additionalFields sent) = sent @ [options]
           \<and> get_prop (req_body options) (js ''chat_id'')
               = (case additionalFields (js ''chat_id'') of None \<Rightarrow> chatId | Some v \<Rightarrow> v)
           \<and> get_prop (req_body options) (js ''text'')
               = (case additionalFields (js ''text'') of
                    None \<Rightarrow> JStr (sanitizeText text) | Some v \<Rightarrow> v)"
  proof -
    obtain options where o:
      "snd (sendMessage ctx chatId text botToken additionalFields sent) = sent @ [options]"
      "req_body options
         = [js ''chat_id'' \<mapsto> chatId, js ''text'' \<mapsto> JStr (sanitizeText text)] ++ additionalFields"
      unfolding send using telegramApiRequest_sent[OF assms(4,5)] by blast
    have "get_prop (req_body options) (js ''chat_id'')
            = (case additionalFields (js ''chat_id'') of None \<Rightarrow> chatId | Some v \<Rightarrow> v)"
      and "get_prop (req_body options) (js ''text'')
            = (case additionalFields (js ''text'') of
                 None \<Rightarrow> JStr (sanitizeText text) | Some v \<Rightarrow> v)"
      by (simp_all only: o(2) body base)
    with o(1) show ?thesis by blast
  qed
  have 2: "\<exists>options. snd (editMessage ctx chatId messageId text botToken additionalFields sent)
             = sent @ [options]
           \<and> get_prop (req_body options) (js ''chat_id'')
               = (case additionalFields (js ''chat_id'') of None \<Rightarrow> chatId | Some v \<Rightarrow> v)
           \<and> get_prop (req_body options) (js ''message_id'')
               = (case additionalFields (js ''message_id'') of None \<Rightarrow> messageId | Some v \<Rightarrow> v)
           \<and> get_prop (req_body options) (js ''text'')
               = (case additionalFields (js ''text'') of
                    None \<Rightarrow> JStr (sanitizeText text) | Some v \<Rightarrow> v)"
    if m: "truthy messageId" "typeof messageId = TNumber"
  proof -
    obtain options where o:
      "snd (editMessage ctx chatId messageId text botToken additionalFields sent) = sent @ [options]"
      "req_body options
         = [js ''chat_id'' \<mapsto> chatId, js ''message_id'' \<mapsto> messageId,
            js ''text'' \<mapsto> JStr (sanitizeText text)] ++ additionalFields"
      unfolding edit[OF m] using telegramApiRequest_sent[OF assms(4,5)] by blast
    have "get_prop (req_body options) (js ''chat_id'')
            = (case additionalFields (js ''chat_id'') of None \<Rightarrow> chatId | Some v \<Rightarrow> v)"
      and "get_prop (req_body options) (js ''message_id'')
            = (case additionalFields (js ''message_id'') of None \<Rightarrow> messageId | Some v \<Rightarrow> v)"
      and "get_prop (req_body options) (js ''text'')
            = (case additionalFields (js ''text'') of
                 None \<Rightarrow> JStr (sanitizeText text) | Some v \<Rightarrow> v)"
      by (simp_all only: o(2) body base)
    with o(1) show ?thesis by blast
  qed
  from 1 2 show ?thesis by blast
qed

theorem additional_fields_merge_witness:
  "map (\<lambda>options. (get_prop (req_body options) (js ''chat_id''),
                   get_prop (req_body options) (js ''text''),
                   get_prop (req_body options) (js ''parse_mode'')))
     (snd (sendMessage (mock_context ''message'' ''send'' False 1) (JStr (js ''@validchannel''))
        (JStr (js ''Hello'')) example_token [js ''parse_mode'' \<mapsto> JStr (js ''HTML'')] []))
   = [(JStr (js ''@validchannel''), JStr (js ''Hello''), JStr (js ''HTML''))]"
proof -
  have "sanitizeText (JStr (js ''Hello'')) \<noteq> []" "length (sanitizeText (JStr (js ''Hello''))) \<le> 4096"
    by (simp_all add: sanitizeText_Hello)
  from additional_fields_merge[OF example_chat_valid this
      conjunct1[OF example_token_valid] conjunct2[OF example_token_valid],
      of "mock_context ''message'' ''send'' False 1" "[js ''parse_mode'' \<mapsto> JStr (js ''HTML'')]" "[]"]
  show ?thesis
    by (simp add: sendMessage_def example_chat_valid sanitizeText_Hello telegramApiRequest_mock
        js_eq_iff get_prop_def)
qed

text \<open>
  The claim as stated fails: additional fields with the keys \<open>chat_id\<close> and \<open>text\<close> replace
  the chat identifier and the sanitized text in the body that is sent.
\<close>

theorem additional_fields_override_counterexample:
  "length (snd (sendMessage (mock_context ''message'' ''send'' False 1)
      (JStr (js ''@validchannel'')) (JStr (js ''Hello'')) example_token
      [js ''chat_id'' \<mapsto> JStr (js ''@otherchannel''), js ''text'' \<mapsto> JStr (js ''<b>'')] [])) = 1
   \<and> get_prop (req_body (hd (snd (sendMessage (mock_context ''message'' ''send'' False 1)
      (JStr (js ''@validchannel'')) (JStr (js ''Hello'')) example_token
      [js ''chat_id'' \<mapsto> JStr (js ''@otherchannel''), js ''text'' \<mapsto> JStr (js ''<b>'')] []))))
      (js ''chat_id'') = JStr (js ''@otherchannel'')
   \<and> get_prop (req_body (hd (snd (sendMessage (mock_context ''message'' ''send'' False 1)
      (JStr (js ''@validchannel'')) (JStr (js ''Hello'')) example_token
      [js ''chat_id'' \<mapsto> JStr (js ''@otherchannel''), js ''text'' \<mapsto> JStr (js ''<b>'')] []))))
      (js ''text'') = JStr (js ''<b>'')"
  by (simp add: sendMessage_def example_chat_valid sanitizeText_Hello telegramApiRequest_mock
      js_eq_iff get_prop_def)

section \<open>The dispatcher\<close>

declare execute_loop.simps [simp del]

lemma appends_const: "appends (\<lambda>sent. (x, sent))"
  unfolding appends_def by (intro exI[of _ x] exI[of _ "[]"]) simp

lemma appends_if:
  "appends f \<Longrightarrow> appends g \<Longrightarrow> appends (\<lambda>sent. if c then f sent else g sent)"
  by (cases c) (simp_all add: appends_def)

lemma appends_case_sum:
  "(\<And>x. appends (f x)) \<Longrightarrow> (\<And>y. appends (g y))
   \<Longrightarrow> appends (\<lambda>sent. case v of Inl x \<Rightarrow> f x sent | Inr y \<Rightarrow> g y sent)"
  by (cases v) simp_all

lemma appends_telegramApiRequest:
  "appends (\<lambda>sent. telegramApiRequest ctx method endpoint body qs headers botToken sent)"
proof -
  have "telegramApiRequest ctx method endpoint body qs headers botToken sent
      = (fst (telegramApiRequest ctx method endpoint body qs headers botToken []),
         sent @ snd (telegramApiRequest ctx method endpoint body qs headers botToken []))" for sent
    by (simp add: telegramApiRequest_def Let_def split: sum.splits)
  then show ?thesis unfolding appends_def by blast
qed

lemmas appends_intros =
  appends_if appends_case_sum appends_const appends_telegramApiRequest

lemma appends_sendMessage:
  "appends (\<lambda>sent. sendMessage ctx chatId text botToken additionalFields sent)"
  unfolding sendMessage_def Let_def by (intro appends_intros)

lemma appends_editMessage:
  "appends (\<lambda>sent. editMessage ctx chatId messageId text botToken additionalFields sent)"
  unfolding editMessage_def Let_def by (intro appends_intros)

lemma appends_deleteMessage:
  "appends (\<lambda>sent. deleteMessage ctx chatId messageId botToken sent)"
  unfolding deleteMessage_def Let_def by (intro appends_intros)

lemma appends_sendPhoto:
  "appends (\<lambda>sent. sendPhoto ctx chatId photo botToken additionalFields sent)"
  unfolding sendPhoto_def Let_def by (intro appends_intros)

lemma appends_sendDocument:
  "appends (\<lambda>sent. sendDocument ctx chatId document botToken additionalFields sent)"
  unfolding sendDocument_def Let_def by (intro appends_intros)

lemma appends_getChat: "appends (\<lambda>sent. getChat ctx chatId botToken sent)"
  unfolding getChat_def Let_def by (intro appends_intros)

lemma appends_getChatAdministrators:
  "appends (\<lambda>sent. getChatAdministrators ctx chatId botToken sent)"
  unfolding getChatAdministrators_def Let_def by (intro appends_intros)

lemma appends_execute_dispatch:
  "appends (\<lambda>sent. execute_dispatch ctx i resource operation chatId additionalFields botToken sent)"
  unfolding execute_dispatch_def
  by (intro appends_intros appends_sendMessage appends_editMessage appends_deleteMessage
      appends_sendPhoto appends_sendDocument appends_getChat appends_getChatAdministrators)

lemma appends_execute_item: "appends (\<lambda>sent. execute_item ctx i sent)"
  unfolding execute_item_def
  by (intro appends_intros appends_execute_dispatch)

lemma execute_item_sent:
  "execute_item ctx i sent = (item_outcome ctx i, sent @ item_requests ctx i)"
proof -
  obtain r q where *: "\<And>sent. execute_item ctx i sent = (r, sent @ q)"
    using appends_execute_item[of ctx i] unfolding appends_def by blast
  have "item_outcome ctx i = r" "item_requests ctx i = q"
    by (simp_all add: item_outcome_def item_requests_def *[of "[]"])
  then show ?thesis by (simp add: *)
qed


lemma execute_loop_step:
  "execute_loop ctx i returnData sent =
     (if i < length (getInputData ctx) then
        (case item_outcome ctx i of
           Inr responseData \<Rightarrow>
             execute_loop ctx (Suc i) (returnData @ [item_record ctx i])
               (sent @ item_requests ctx i)
         | Inl error \<Rightarrow>
             if continueOnFail ctx then
               execute_loop ctx (Suc i) (returnData @ [item_record ctx i])
                 (sent @ item_requests ctx i)
             else (Inl error, sent @ item_requests ctx i))
      else (Inr returnData, sent))"
  by (subst execute_loop.simps)
    (simp add: execute_item_sent item_record_def split: sum.splits)

lemma execute_loop_all:
  assumes "continueOnFail ctx
           \<or> (\<forall>j. i \<le> j \<and> j < length (getInputData ctx) \<longrightarrow> (\<exists>r. item_outcome ctx j = Inr r))"
    and "i \<le> length (getInputData ctx)"
  shows "execute_loop ctx i returnData sent
     = (Inr (returnData @ map (item_record ctx) [i..<length (getInputData ctx)]),
        sent @ concat (map (item_requests ctx) [i..<length (getInputData ctx)]))"
  using assms
proof (induction "length (getInputData ctx) - i" arbitrary: i returnData sent)
  case 0
  then show ?case by (subst execute_loop_step) simp
next
  case (Suc d)
  then have lt: "i < length (getInputData ctx)" by simp
  have IH: "execute_loop ctx (Suc i) rd s
     = (Inr (rd @ map (item_record ctx) [Suc i..<length (getInputData ctx)]),
        s @ concat (map (item_requests ctx) [Suc i..<length (getInputData ctx)]))" for rd s
    using Suc.hyps(2) Suc.prems lt by (intro Suc.hyps(1)) auto
  have ok: "continueOnFail ctx \<or> (\<exists>r. item_outcome ctx i = Inr r)"
    using Suc.prems(1) lt by auto
  show ?case
    using ok lt
    by (subst execute_loop_step) (auto simp: IH upt_conv_Cons split: sum.splits)
qed

lemma execute_loop_abort:
  assumes "\<not> continueOnFail ctx" and "k < length (getInputData ctx)" and "i \<le> k"
    and "item_outcome ctx k = Inl e"
    and "\<forall>j. i \<le> j \<and> j < k \<longrightarrow> (\<exists>r. item_outcome ctx j = Inr r)"
  shows "execute_loop ctx i returnData sent
     = (Inl e, sent @ concat (map (item_requests ctx) [i..<Suc k]))"
  using assms(3,5)
proof (induction "k - i" arbitrary: i returnData sent)
  case 0
  then have "i = k" by simp
  then show ?case
    using assms(1,2,4) by (subst execute_loop_step) simp
next
  case (Suc d)
  then have lt: "i < k" by simp
  then obtain r where r: "item_outcome ctx i = Inr r" using Suc.prems(2) by auto
  have IH: "execute_loop ctx (Suc i) rd s
     = (Inl e, s @ concat (map (item_requests ctx) [Suc i..<Suc k]))" for rd s
    using Suc.hyps(2) Suc.prems lt by (intro Suc.hyps(1)) auto
  have "[i..<Suc k] = i # [Suc i..<Suc k]" using lt by (simp add: upt_conv_Cons)
  then show ?case
    using lt assms(2) r by (subst execute_loop_step) (simp add: IH)
qed

lemma mock_context_fields:
  "getInputData (mock_context resource operation continue n) = replicate n Map.empty"
  "getNodeParameter (mock_context resource operation continue n)
     = mock_parameters resource operation"
  "continueOnFail (mock_context resource operation continue n) = continue"
  "numberToString (mock_context resource operation continue n) = (\<lambda>n. js ''0'')"
  by (simp_all add: mock_context_def)

lemma mock_execute_item_send:
  "execute_item (mock_context ''message'' ''send'' continue n) i sent =
     (if i = 1 then (Inl (InvalidChatId (JStr (js ''not a chat''))), sent)
      else sendMessage (mock_context ''message'' ''send'' continue n) (JStr (js ''@validchannel''))
             (JStr (js ''Hello'')) example_token Map.empty sent)"
  using example_token_valid
  by (simp add: execute_item_def execute_auth_def execute_dispatch_def mock_context_fields
      mock_parameters_def js_eq_iff fields_of_def sendMessage_def example_chat_invalid)

lemma mock_item_outcome_send:
  "item_outcome (mock_context ''message'' ''send'' continue n) i =
     (if i = 1 then Inl (InvalidChatId (JStr (js ''not a chat''))) else Inr mock_response)"
  by (simp add: item_outcome_def mock_execute_item_send sendMessage_def example_chat_valid
      sanitizeText_Hello telegramApiRequest_mock)

lemma mock_item_requests_send:
  "length (item_requests (mock_context ''message'' ''send'' continue n) i) = (if i = 1 then 0 else 1)"
  by (simp add: item_requests_def mock_execute_item_send sendMessage_def example_chat_valid
      sanitizeText_Hello telegramApiRequest_mock)

lemma mock_error_text:
  "error_text (\<lambda>n. js ''0'') (InvalidChatId (JStr (js ''not a chat'')))
     = js ''Invalid chat ID: not a chat. Use numeric ID or @username format.''"
  by (simp add: error_text_def js_def)

text \<open>
  C4. With continue-on-fail enabled, \<open>execute\<close> returns exactly one record per input item, in
  the order of the items: the record at position \<open>i\<close> is paired with item \<open>i\<close> and depends on
  that item alone; it carries the response when the item succeeds and \<open>{error: message}\<close> when
  it fails, so a failing item leaves the records before and after it as they are. With
  continue-on-fail disabled, the first failing item makes \<open>execute\<close> fail with that item's
  error, and no request of a later item is made; when no item fails, the records are the same
  as with continue-on-fail enabled.
\<close>

theorem batch_results:
  "(continueOnFail ctx \<longrightarrow>
      execute ctx sent
        = (Inr [map (item_record ctx) [0..<length (getInputData ctx)]],
           sent @ concat (map (item_requests ctx) [0..<length (getInputData ctx)])))
   \<and> (\<not> continueOnFail ctx \<longrightarrow>
        (\<forall>k e. k < length (getInputData ctx) \<and> item_outcome ctx k = Inl e
                 \<and> (\<forall>j<k. \<exists>r. item_outcome ctx j = Inr r)
            \<longrightarrow> execute ctx sent
                  = (Inl e, sent @ concat (map (item_requests ctx) [0..<Suc k])))
        \<and> ((\<forall>j<length (getInputData ctx). \<exists>r. item_outcome ctx j = Inr r)
            \<longrightarrow> execute ctx sent
                  = (Inr [map (item_record ctx) [0..<length (getInputData ctx)]],
                     sent @ concat (map (item_requests ctx) [0..<length (getInputData ctx)]))))"
proof -
  have 1: "execute ctx sent
        = (Inr [map (item_record ctx) [0..<length (getInputData ctx)]],
           sent @ concat (map (item_requests ctx) [0..<length (getInputData ctx)]))"
    if "continueOnFail ctx \<or> (\<forall>j<length (getInputData ctx). \<exists>r. item_outcome ctx j = Inr r)"
    using that by (simp add: execute_def execute_loop_all[where i = 0])
  have 2: "execute ctx sent = (Inl e, sent @ concat (map (item_requests ctx) [0..<Suc k]))"
    if "\<not> continueOnFail ctx" "k < length (getInputData ctx)" "item_outcome ctx k = Inl e"
      "\<forall>j<k. \<exists>r. item_outcome ctx j = Inr r" for k e
    using that by (simp add: execute_def execute_loop_abort[where i = 0 and k = k and e = e])
  show ?thesis using 1 2 by blast
qed

theorem batch_results_witness:
  "(case fst (execute (mock_context ''message'' ''send'' True 3) []) of
      Inr [[first, second, third]] \<Rightarrow>
        json first = mock_response \<and> pairedItem first = 0
        \<and> json second (js ''error'')
            = Some (JStr (js ''Invalid chat ID: not a chat. Use numeric ID or @username format.''))
        \<and> pairedItem second = 1
        \<and> json third = mock_response \<and> pairedItem third = 2
    | _ \<Rightarrow> False)
   \<and> fst (execute (mock_context ''message'' ''send'' False 3) [])
        = Inl (InvalidChatId (JStr (js ''not a chat'')))
   \<and> length (snd (execute (mock_context ''message'' ''send'' False 3) [])) = 1"
proof -
  have u: "[0..<3] = [0, 1, 2]" "[0..<Suc 1] = [0, 1]" by (simp_all add: upt_conv_Cons)
  have k: "(1::nat) < length (getInputData (mock_context ''message'' ''send'' False 3))
      \<and> item_outcome (mock_context ''message'' ''send'' False 3) 1
          = Inl (InvalidChatId (JStr (js ''not a chat'')))
      \<and> (\<forall>j<1. \<exists>r. item_outcome (mock_context ''message'' ''send'' False 3) j = Inr r)"
    by (simp add: mock_context_fields mock_item_outcome_send)
  have "execute (mock_context ''message'' ''send'' True 3) []
      = (Inr [map (item_record (mock_context ''message'' ''send'' True 3)) [0..<3]],
         [] @ concat (map (item_requests (mock_context ''message'' ''send'' True 3)) [0..<3]))"
    using batch_results[of "mock_context ''message'' ''send'' True 3" "[]"]
    by (simp add: mock_context_fields)
  moreover have "\<not> continueOnFail (mock_context ''message'' ''send'' False 3)"
    by (simp add: mock_context_fields)
  from batch_results[of "mock_context ''message'' ''send'' False 3" "[]", THEN conjunct2, THEN mp,
      OF this, THEN conjunct1, rule_format, of 1 "InvalidChatId (JStr (js ''not a chat''))", OF k]
  have "execute (mock_context ''message'' ''send'' False 3) []
      = (Inl (InvalidChatId (JStr (js ''not a chat''))),
         [] @ concat (map (item_requests (mock_context ''message'' ''send'' False 3)) [0..<Suc 1]))" .
  ultimately show ?thesis
    by (simp add: u item_record_def mock_item_outcome_send mock_item_requests_send
        mock_context_fields mock_error_text)
qed

text \<open>
  C10. For an item whose token and parameters resolve without error and whose pair of
  resource and operation is not one of the seven that are dispatched, the \<open>try\<close> body ends
  with \<open>responseData = {}\<close> and without a request, and the loop pushes the success record
  \<open>{json: {}, pairedItem: {item: i}}\<close> and goes on with the next item.
\<close>

theorem unrecognized_pair_empty_success:
  assumes "getNodeParameter ctx (js ''authMethod'') i = Inr authMethod"
    and "execute_auth ctx authMethod i = Inr botToken"
    and "truthy botToken" and "validateBotToken botToken"
    and "getNodeParameter ctx (js ''resource'') i = Inr resource"
    and "getNodeParameter ctx (js ''operation'') i = Inr operation"
    and "getNodeParameter ctx (js ''chatId'') i = Inr chatId"
    and "getNodeParameter ctx (js ''additionalFields'') i = Inr additionalFields"
    and "(resource, operation) \<notin> handled_pairs"
  shows "execute_item ctx i sent = (Inr Map.empty, sent)
    \<and> (i < length (getInputData ctx) \<longrightarrow>
         execute_loop ctx i returnData sent
           = execute_loop ctx (Suc i) (returnData @ [\<lparr>json = Map.empty, pairedItem = i\<rparr>]) sent)"
proof -
  have "execute_dispatch ctx i resource operation chatId additionalFields botToken sent
      = (Inr Map.empty, sent)"
    using assms(9) by (auto simp: execute_dispatch_def handled_pairs_def)
  then have item: "execute_item ctx i sent = (Inr Map.empty, sent)"
    using assms by (simp add: execute_item_def)
  then show ?thesis
    by (subst execute_loop.simps) simp
qed

theorem unrecognized_pair_empty_success_witness:
  "execute_item (mock_context ''chat'' ''ban'' False 2) 0 [] = (Inr Map.empty, [])
   \<and> execute (mock_context ''chat'' ''ban'' False 2) []
      = (Inr [[\<lparr>json = Map.empty, pairedItem = 0\<rparr>, \<lparr>json = Map.empty, pairedItem = 1\<rparr>]], [])"
proof -
  let ?ctx = "mock_context ''chat'' ''ban'' False 2"
  have auth: "execute_auth ?ctx (JStr (js ''direct'')) i = Inr example_token" for i
    by (simp add: execute_auth_def mock_context_fields mock_parameters_def js_eq_iff)
  have pair: "(JStr (js ''chat''), JStr (js ''ban'')) \<notin> handled_pairs"
    by (simp add: handled_pairs_def js_eq_iff)
  have step: "execute_item ?ctx i sent = (Inr Map.empty, sent)
    \<and> (i < length (getInputData ?ctx) \<longrightarrow>
         execute_loop ?ctx i returnData sent
           = execute_loop ?ctx (Suc i) (returnData @ [\<lparr>json = Map.empty, pairedItem = i\<rparr>]) sent)"
    for i sent returnData
    by (rule unrecognized_pair_empty_success[where authMethod = "JStr (js ''direct'')"
          and botToken = example_token and resource = "JStr (js ''chat'')"
          and operation = "JStr (js ''ban'')"
          and chatId = "JStr (if i = 1 then js ''not a chat'' else js ''@validchannel'')"
          and additionalFields = "JObj Map.empty"])
      (simp_all add: auth pair example_token_valid mock_context_fields mock_parameters_def
        js_eq_iff)
  have "execute_loop ?ctx 0 [] [] = execute_loop ?ctx 2 [\<lparr>json = Map.empty, pairedItem = 0\<rparr>,
      \<lparr>json = Map.empty, pairedItem = 1\<rparr>] []"
    using step[of 0 "[]" "[]"] step[of 1 "[]" "[\<lparr>json = Map.empty, pairedItem = 0\<rparr>]"]
    by (simp add: mock_context_fields numeral_2_eq_2)
  moreover have "execute_loop ?ctx 2 rd [] = (Inr rd, [])" for rd
    by (subst execute_loop.simps) (simp add: mock_context_fields)
  ultimately show ?thesis
    using step[of 0 "[]" "[]"] by (simp add: execute_def)
qed

end
